theory Spec2Isabelle
  imports
    Main
    "HOL-Library.Multiset"
    "HOL-Library.Char_ord"
    "HOL-Library.List_Lexorder"
    "HOL-Library.Product_Lexorder"
begin

text \<open>
  A model of \<open>summary.py\<close>, the benchmark summary script of ngiab-bench: the decoder of the
  names of result directories, the loader of hyperfine measurement files, the aggregation
  of both into sorted rows, and the fingerprint of the machine (\<open>get_system_info\<close>). The
  definitions come first; the lemmas and the properties follow.
\<close>

section \<open>Strings\<close>

text \<open>
  A Python \<open>str\<close> is modelled as a \<open>string\<close>: one \<open>char\<close> per code point, for code
  points below 256. In that range the decimal digits of the regular-expression class
  \<^verbatim>\<open>\d\<close> are \<open>0\<close> to \<open>9\<close>, and \<^verbatim>\<open>.\<close> is every character but the line feed.
\<close>

abbreviation LF :: char where
  "LF \<equiv> CHR 0x0A"

definition is_digit :: "char \<Rightarrow> bool" where
  "is_digit c = (c \<in> set ''0123456789'')"

definition is_unit_letter :: "char \<Rightarrow> bool" where
  "is_unit_letter c = (c \<in> set ''dmy'')"

definition is_dot :: "char \<Rightarrow> bool" where
  "is_dot c = (c \<noteq> LF)"

section \<open>The result directory decoder\<close>

text \<open>
  \<^verbatim>\<open>
  def parse_result_dir(dirname):
      match = re.match(r"(\d+[dmy])_(\d+)_(.+)", dirname)
      if match:
          return match.groups()
      return None, None, None
  \<close>
  \<open>re.match\<close> anchors the pattern at the start of \<open>dirname\<close> only. Every repetition of
  the pattern is followed by a character outside its own class (a unit letter or an
  underscore after digits, nothing after \<^verbatim>\<open>.+\<close>), so the greedy match is the only
  candidate: each run is the longest one. The three \<open>None\<close>s of the last line are the
  value \<open>None\<close> here.
\<close>

definition parse_result_dir :: "string \<Rightarrow> (string \<times> string \<times> string) option" where
  "parse_result_dir dirname =
     (let ds = takeWhile is_digit dirname; r1 = dropWhile is_digit dirname in
      if ds = [] \<or> r1 = [] \<or> \<not> is_unit_letter (hd r1) then None
      else
        let r2 = tl r1 in
        if r2 = [] \<or> hd r2 \<noteq> CHR ''_'' then None
        else
          let os = takeWhile is_digit (tl r2); r3 = dropWhile is_digit (tl r2) in
          if os = [] \<or> r3 = [] \<or> hd r3 \<noteq> CHR ''_'' then None
          else
            let g = takeWhile is_dot (tl r3) in
            if g = [] then None else Some (ds @ [hd r1], os, g))"

text \<open>The two parts of a name that the grammar constrains.\<close>

definition is_duration_tag :: "string \<Rightarrow> bool" where
  "is_duration_tag d =
     (d \<noteq> [] \<and> butlast d \<noteq> [] \<and> list_all is_digit (butlast d) \<and> is_unit_letter (last d))"

definition is_operation_count :: "string \<Rightarrow> bool" where
  "is_operation_count s = (s \<noteq> [] \<and> list_all is_digit s)"

text \<open>
  The anchored grammar \<^verbatim>\<open>^(\d+[dmy])_(\d+)_(.+)$\<close> of the specification, as a relation
  between a whole name and its three groups: the name is the duration tag, an underscore,
  the operation count, an underscore and the gage, and the gage is a non-empty run of
  \<^verbatim>\<open>.\<close> characters that reaches the end of the name.
\<close>

definition anchored_grammar :: "string \<Rightarrow> string \<Rightarrow> string \<Rightarrow> string \<Rightarrow> bool" where
  "anchored_grammar name d os g =
     (name = d @ ''_'' @ os @ ''_'' @ g \<and> is_duration_tag d \<and> is_operation_count os
      \<and> g \<noteq> [] \<and> list_all is_dot g)"

text \<open>
  What the decoder accepts, as a relation between a name and its three groups: the name
  \<^emph>\<open>begins\<close> with the duration tag, an underscore, the operation count, an underscore and
  the gage, and the gage is a non-empty run of \<^verbatim>\<open>.\<close> characters that stops at the end of
  the name or at its first line feed.
\<close>

definition prefix_grammar :: "string \<Rightarrow> string \<Rightarrow> string \<Rightarrow> string \<Rightarrow> bool" where
  "prefix_grammar name d os g =
     (let p = d @ ''_'' @ os @ ''_'' @ g; r = drop (length p) name in
      take (length p) name = p \<and> is_duration_tag d \<and> is_operation_count os
      \<and> g \<noteq> [] \<and> list_all is_dot g \<and> (r = [] \<or> hd r = LF))"

section \<open>Errors\<close>

text \<open>
  The exceptions that the modelled code can meet. A function that can raise returns
  \<open>py_error + 'a\<close>, with \<open>Inl\<close> for the exception.
\<close>

datatype py_error =
  OSError | CalledProcessError | JSONDecodeError | KeyError | IndexError | TypeError | ValueError
| OverflowError

definition and_then :: "py_error + 'a \<Rightarrow> ('a \<Rightarrow> py_error + 'b) \<Rightarrow> py_error + 'b" where
  "and_then r f = (case r of Inl e \<Rightarrow> Inl e | Inr x \<Rightarrow> f x)"

section \<open>The result loader\<close>

text \<open>
  What \<open>json.load\<close> returns: \<open>None\<close>, a truth value, a number, a string, a list or a
  dictionary with string keys. The type \<open>'n\<close> of numbers (Python's \<open>int\<close> and \<open>float\<close>) is
  left open: the loader does no arithmetic. A dictionary is the list of its items, each key
  once.
\<close>

datatype 'n json =
  JNull | JBool bool | JNum 'n | JStr string | JArr "'n json list" | JObj "(string \<times> 'n json) list"

text \<open>\<open>x[key]\<close> for a string key, and \<open>x[0]\<close>.\<close>

fun subscript_key :: "'n json \<Rightarrow> string \<Rightarrow> py_error + 'n json" where
  "subscript_key (JObj items) k = (case map_of items k of None \<Rightarrow> Inl KeyError | Some v \<Rightarrow> Inr v)"
| "subscript_key _ k = Inl TypeError"

fun subscript_0 :: "'n json \<Rightarrow> py_error + 'n json" where
  "subscript_0 (JArr xs) = (case xs of [] \<Rightarrow> Inl IndexError | x # _ \<Rightarrow> Inr x)"
| "subscript_0 (JStr s) = (case s of [] \<Rightarrow> Inl IndexError | c # _ \<Rightarrow> Inr (JStr [c]))"
| "subscript_0 (JObj items) = Inl KeyError"
| "subscript_0 _ = Inl TypeError"

text \<open>
  The results directory as the program sees it: whether the root exists, what
  \<open>os.listdir\<close> returns (the entries, or the exception it raises when the root is not a
  directory that can be read), which entries are directories, for each file of an entry
  what \<open>open\<close> followed by \<open>json.load\<close> yields (a decoded document, or the exception
  raised by a missing or unreadable file or by malformed JSON), and the exception that
  writing \<open>benchmark_summary.csv\<close> into the root raises, if it raises one.
\<close>

record 'n results_root =
  root_exists :: bool
  listdir :: "py_error + string list"
  is_dir :: "string \<Rightarrow> bool"
  read_json :: "string \<Rightarrow> string \<Rightarrow> py_error + 'n json"
  write_csv :: "py_error option"

text \<open>
  \<^verbatim>\<open>
  def load_hyperfine_results(json_file):
      try:
          with open(json_file, "r") as f:
              data = json.load(f)
              return data["results"][0]["mean"]
      except:
          return None
  \<close>
  The path \<open>dirpath / name\<close> is the pair of the entry and the file name. Python's \<open>None\<close>
  is \<open>JNull\<close>.
\<close>

definition load_hyperfine_results :: "'n results_root \<Rightarrow> string \<Rightarrow> string \<Rightarrow> 'n json" where
  "load_hyperfine_results root dirname file =
     (case and_then (read_json root dirname file) (\<lambda>data.
           and_then (subscript_key data ''results'') (\<lambda>results.
           and_then (subscript_0 results) (\<lambda>first.
           subscript_key first ''mean''))) of
        Inl _ \<Rightarrow> JNull
      | Inr mean \<Rightarrow> mean)"

section \<open>The benchmark aggregator\<close>

text \<open>
  The arithmetic of the Python runtime on numbers, kept abstract: the test \<open>x == 0\<close> behind
  the truth value of a number, the number a truth value counts as (\<open>True\<close> is 1), \<open>x + y\<close>
  (which can raise: the sum of an integer beyond the range of a float and a float is an
  \<open>OverflowError\<close>) and \<open>round(x, 3)\<close>.
\<close>

record 'n arith =
  is_zero :: "'n \<Rightarrow> bool"
  of_truth :: "bool \<Rightarrow> 'n"
  add :: "'n \<Rightarrow> 'n \<Rightarrow> py_error + 'n"
  round3 :: "'n \<Rightarrow> 'n"

text \<open>The truth value of a loaded measurement in a condition (\<open>if x\<close>).\<close>

fun truthy :: "'n arith \<Rightarrow> 'n json \<Rightarrow> bool" where
  "truthy ar JNull = False"
| "truthy ar (JBool b) = b"
| "truthy ar (JNum x) = (\<not> is_zero ar x)"
| "truthy ar (JStr s) = (s \<noteq> [])"
| "truthy ar (JArr xs) = (xs \<noteq> [])"
| "truthy ar (JObj items) = (items \<noteq> [])"

text \<open>\<open>round(x, 3)\<close>: defined on numbers and truth values, a \<open>TypeError\<close> on the rest.\<close>

fun py_round3 :: "'n arith \<Rightarrow> 'n json \<Rightarrow> py_error + 'n" where
  "py_round3 ar (JNum x) = Inr (round3 ar x)"
| "py_round3 ar (JBool b) = Inr (round3 ar (of_truth ar b))"
| "py_round3 ar _ = Inl TypeError"

text \<open>
  \<open>x + y\<close>: numbers add (or the addition raises), strings and lists concatenate, anything
  else is a \<open>TypeError\<close>.
\<close>

fun number_of :: "'n arith \<Rightarrow> 'n json \<Rightarrow> 'n option" where
  "number_of ar (JNum x) = Some x"
| "number_of ar (JBool b) = Some (of_truth ar b)"
| "number_of ar _ = None"

definition py_add :: "'n arith \<Rightarrow> 'n json \<Rightarrow> 'n json \<Rightarrow> py_error + 'n json" where
  "py_add ar x y =
     (case (number_of ar x, number_of ar y) of
        (Some a, Some b) \<Rightarrow> and_then (add ar a b) (\<lambda>s. Inr (JNum s))
      | _ \<Rightarrow>
        (case (x, y) of
           (JStr s, JStr t) \<Rightarrow> Inr (JStr (s @ t))
         | (JArr xs, JArr ys) \<Rightarrow> Inr (JArr (xs @ ys))
         | _ \<Rightarrow> Inl TypeError))"

text \<open>A runtime column of a row: a number, or the marker \<open>"N/A"\<close>.\<close>

datatype 'n cell = NA | Seconds 'n

record 'n row =
  duration :: string
  operations :: nat
  gage :: string
  mpi_runtime :: "'n cell"
  troute_runtime :: "'n cell"
  total_runtime :: "'n cell"

text \<open>\<open>int(ops)\<close> on a string of decimal digits.\<close>

definition digit_value :: "char \<Rightarrow> nat" where
  "digit_value c = of_char c - 48"

definition int_of_digits :: "string \<Rightarrow> nat" where
  "int_of_digits s = foldl (\<lambda>n c. 10 * n + digit_value c) 0 s"

text \<open>
  \<^verbatim>\<open>
  "MPI Runtime (s)": round(mpirun_time, 3) if mpirun_time else "N/A",
  "Troute Runtime (s)": round(troute_time, 3) if troute_time else "N/A",
  "Total Runtime (s)": round(mpirun_time + troute_time, 3)
  if mpirun_time and troute_time
  else "N/A",
  \<close>
\<close>

definition runtime_cell :: "'n arith \<Rightarrow> 'n json \<Rightarrow> py_error + 'n cell" where
  "runtime_cell ar t =
     (if truthy ar t then and_then (py_round3 ar t) (\<lambda>x. Inr (Seconds x)) else Inr NA)"

definition total_cell :: "'n arith \<Rightarrow> 'n json \<Rightarrow> 'n json \<Rightarrow> py_error + 'n cell" where
  "total_cell ar mpirun_time troute_time =
     (if truthy ar mpirun_time \<and> truthy ar troute_time
      then and_then (py_add ar mpirun_time troute_time) (\<lambda>s.
           and_then (py_round3 ar s) (\<lambda>x. Inr (Seconds x)))
      else Inr NA)"

text \<open>The dictionary appended for one qualifying directory; its values are computed in order.\<close>

definition make_row ::
  "'n arith \<Rightarrow> string \<Rightarrow> string \<Rightarrow> string \<Rightarrow> 'n json \<Rightarrow> 'n json \<Rightarrow> py_error + 'n row" where
  "make_row ar dur ops gag mpirun_time troute_time =
     and_then (runtime_cell ar mpirun_time) (\<lambda>mpi.
     and_then (runtime_cell ar troute_time) (\<lambda>troute.
     and_then (total_cell ar mpirun_time troute_time) (\<lambda>total.
     Inr \<lparr>duration = dur, operations = int_of_digits ops, gage = gag,
          mpi_runtime = mpi, troute_runtime = troute, total_runtime = total\<rparr>)))"

text \<open>
  \<^verbatim>\<open>
  for dirname in os.listdir(BENCHMARK_DIR):
      dirpath = Path(BENCHMARK_DIR) / dirname
      if dirpath.is_dir():
          duration, ops, gage = parse_result_dir(dirname)
          if duration and ops:
              mpirun_time = load_hyperfine_results(dirpath / "mpirun_benchmark.json")
              troute_time = load_hyperfine_results(dirpath / "troute_benchmark.json")
              results.append({...})
  \<close>
  A matched duration and operation count are non-empty strings, so \<open>duration and ops\<close>
  holds exactly when the name decoded. The loop stops at the first exception.
\<close>

definition row_of_dir :: "'n arith \<Rightarrow> 'n results_root \<Rightarrow> string \<Rightarrow> (py_error + 'n row) option" where
  "row_of_dir ar root dirname =
     (if is_dir root dirname then
        (case parse_result_dir dirname of
           None \<Rightarrow> None
         | Some (dur, ops, gag) \<Rightarrow>
             Some (make_row ar dur ops gag
                     (load_hyperfine_results root dirname ''mpirun_benchmark.json'')
                     (load_hyperfine_results root dirname ''troute_benchmark.json'')))
      else None)"

fun collect_results :: "'n arith \<Rightarrow> 'n results_root \<Rightarrow> string list \<Rightarrow> py_error + 'n row list" where
  "collect_results ar root [] = Inr []"
| "collect_results ar root (dirname # rest) =
     (case row_of_dir ar root dirname of
        None \<Rightarrow> collect_results ar root rest
      | Some (Inl e) \<Rightarrow> Inl e
      | Some (Inr r) \<Rightarrow> and_then (collect_results ar root rest) (\<lambda>rs. Inr (r # rs)))"

text \<open>
  \<^verbatim>\<open>
  df = pd.DataFrame(results)
  df = df.sort_values(["Operations", "Duration"])
  \<close>
  A sort on several columns is a stable sort on the tuple of their values, ascending:
  integers by value, strings by code point.
\<close>

definition sort_key_of :: "'n row \<Rightarrow> nat \<times> string" where
  "sort_key_of r = (operations r, duration r)"

definition sort_values :: "'n row list \<Rightarrow> 'n row list" where
  "sort_values rows = sort_key sort_key_of rows"

section \<open>Text processing\<close>

text \<open>
  White space as \<open>str.strip\<close>, \<open>str.split\<close> and the class \<^verbatim>\<open>\s\<close> see it, among the code
  points below 256: tab, line feed, vertical tab, form feed, carriage return, the four
  separators 28 to 31, space, next line (133) and no-break space (160).
\<close>

definition is_space :: "char \<Rightarrow> bool" where
  "is_space c =
     (c \<in> set [CHR 0x09, CHR 0x0A, CHR 0x0B, CHR 0x0C, CHR 0x0D, CHR 0x1C, CHR 0x1D, CHR 0x1E,
                CHR 0x1F, CHR 0x20, CHR 0x85, CHR 0xA0])"

text \<open>\<open>s.strip()\<close>\<close>

definition strip :: "string \<Rightarrow> string" where
  "strip s = rev (dropWhile is_space (rev (dropWhile is_space s)))"

text \<open>\<open>sub in s\<close>\<close>

fun contains :: "string \<Rightarrow> string \<Rightarrow> bool" where
  "contains sub [] = (sub = [])"
| "contains sub (c # cs) = (take (length sub) (c # cs) = sub \<or> contains sub cs)"

text \<open>\<open>s.split(sep)\<close> for a separator of one character: at least one field.\<close>

fun fields_from :: "char \<Rightarrow> string \<Rightarrow> string \<Rightarrow> string list" where
  "fields_from sep field [] = [field]"
| "fields_from sep field (c # cs) =
     (if c = sep then field # fields_from sep [] cs else fields_from sep (field @ [c]) cs)"

definition split_on :: "char \<Rightarrow> string \<Rightarrow> string list" where
  "split_on sep s = fields_from sep [] s"

text \<open>\<open>s.split()\<close>: the maximal runs of characters that are not white space.\<close>

fun words_from :: "string \<Rightarrow> string \<Rightarrow> string list" where
  "words_from word [] = (if word = [] then [] else [word])"
| "words_from word (c # cs) =
     (if is_space c then (if word = [] then words_from [] cs else word # words_from [] cs)
      else words_from (word @ [c]) cs)"

definition split_ws :: "string \<Rightarrow> string list" where
  "split_ws s = words_from [] s"

text \<open>\<open>sep.join(xs)\<close>\<close>

fun join :: "string \<Rightarrow> string list \<Rightarrow> string" where
  "join sep [] = []"
| "join sep [x] = x"
| "join sep (x # y # ys) = x @ sep @ join sep (y # ys)"

text \<open>\<open>xs[i]\<close> for \<open>i \<ge> 0\<close>, and \<open>xs[-1]\<close>.\<close>

definition py_nth :: "'a list \<Rightarrow> nat \<Rightarrow> py_error + 'a" where
  "py_nth xs i = (if i < length xs then Inr (xs ! i) else Inl IndexError)"

definition py_last :: "'a list \<Rightarrow> py_error + 'a" where
  "py_last xs = (if xs = [] then Inl IndexError else Inr (last xs))"

text \<open>\<open>line.split(":", 1)[1].strip()\<close>: what follows the first colon.\<close>

definition value_after_colon :: "string \<Rightarrow> py_error + string" where
  "value_after_colon line =
     (case dropWhile (\<lambda>c. c \<noteq> CHR '':'') line of
        [] \<Rightarrow> Inl IndexError
      | _ # r \<Rightarrow> Inr (strip r))"

text \<open>\<open>line.split(":")[1].strip()\<close>: what stands between the first colon and the second.\<close>

definition second_field :: "string \<Rightarrow> py_error + string" where
  "second_field line = and_then (py_nth (split_on CHR '':'' line) 1) (\<lambda>v. Inr (strip v))"

text \<open>\<open>str(n)\<close> for a natural number.\<close>

definition digit_char :: "nat \<Rightarrow> char" where
  "digit_char n = ''0123456789'' ! n"

fun show_nat :: "nat \<Rightarrow> string" where
  "show_nat n = (if n < 10 then [digit_char n] else show_nat (n div 10) @ [digit_char (n mod 10)])"

declare show_nat.simps [simp del]

subsection \<open>The regular expressions of the drive probes\<close>

text \<open>
  Without the multi-line flag \<^verbatim>\<open>$\<close> matches at the end of the string and before a line
  feed that ends it: a pattern that ends in \<^verbatim>\<open>$\<close> is matched against the string without
  that line feed.
\<close>

definition before_end :: "string \<Rightarrow> string \<times> string" where
  "before_end s = (if s \<noteq> [] \<and> last s = LF then (butlast s, [LF]) else (s, []))"

text \<open>\<^verbatim>\<open>re.sub(r"\d+$", "", s)\<close>\<close>

definition sub_trailing_digits :: "string \<Rightarrow> string" where
  "sub_trailing_digits s =
     (case before_end s of (body, e) \<Rightarrow> rev (dropWhile is_digit (rev body)) @ e)"

text \<open>\<^verbatim>\<open>re.sub(r"p$", "", s)\<close>\<close>

definition sub_trailing_p :: "string \<Rightarrow> string" where
  "sub_trailing_p s =
     (case before_end s of (body, e) \<Rightarrow>
        (if body \<noteq> [] \<and> last body = CHR ''p'' then butlast body else body) @ e)"

text \<open>\<^verbatim>\<open>re.sub(r"n\d+$", "", s)\<close>\<close>

definition sub_trailing_n_digits :: "string \<Rightarrow> string" where
  "sub_trailing_n_digits s =
     (case before_end s of (body, e) \<Rightarrow>
        (let digits = takeWhile is_digit (rev body); front = rev (dropWhile is_digit (rev body))
         in if digits \<noteq> [] \<and> front \<noteq> [] \<and> last front = CHR ''n''
            then butlast front @ e else s))"

text \<open>
  \<^verbatim>\<open>re.sub(r"^[^\s]+\s+[^\s]+\s+[^\s]+\s+", "x  x  x  ", line)\<close>: three columns, each a run
  of characters that are not white space followed by a run of white space, are replaced at
  the start of the line. A run and the run after it are of complementary classes, so each
  is the longest one.
\<close>

definition skip_column :: "string \<Rightarrow> string option" where
  "skip_column s =
     (let word = takeWhile (\<lambda>c. \<not> is_space c) s; r = dropWhile (\<lambda>c. \<not> is_space c) s
      in if word = [] \<or> r = [] then None else Some (dropWhile is_space r))"

definition sub_three_columns :: "string \<Rightarrow> string" where
  "sub_three_columns line =
     (case skip_column line of
        None \<Rightarrow> line
      | Some r1 \<Rightarrow>
          (case skip_column r1 of
             None \<Rightarrow> line
           | Some r2 \<Rightarrow>
               (case skip_column r2 of
                  None \<Rightarrow> line
                | Some r3 \<Rightarrow> ''x  x  x  '' @ r3)))"

text \<open>
  \<^verbatim>\<open>re.split(r"\s{2,}", s)\<close>: the fields between the runs of two or more white space
  characters. The flag says that such a run is being skipped.
\<close>

fun split_wide_from :: "bool \<Rightarrow> string \<Rightarrow> string \<Rightarrow> string list" where
  "split_wide_from skipping field [] = [field]"
| "split_wide_from skipping field (c # cs) =
     (if skipping \<and> is_space c then split_wide_from True field cs
      else if is_space c \<and> cs \<noteq> [] \<and> is_space (hd cs) then field # split_wide_from True [] cs
      else split_wide_from False (field @ [c]) cs)"

definition split_wide :: "string \<Rightarrow> string list" where
  "split_wide s = split_wide_from False [] s"

text \<open>
  \<^verbatim>\<open>re.findall(r"\s+[0-9\.]+\s+[MTG]B", line)\<close>: \<open>match_capacity\<close> is a match at the start
  of a string (again every run is the longest one), and the search resumes after a match,
  or one character further on when there is none.
\<close>

definition is_amount_char :: "char \<Rightarrow> bool" where
  "is_amount_char c = (c \<in> set ''0123456789.'')"

definition match_capacity :: "string \<Rightarrow> string option" where
  "match_capacity s =
     (let w1 = takeWhile is_space s; r1 = dropWhile is_space s;
          amount = takeWhile is_amount_char r1; r2 = dropWhile is_amount_char r1;
          w2 = takeWhile is_space r2; r3 = dropWhile is_space r2
      in if w1 \<noteq> [] \<and> amount \<noteq> [] \<and> w2 \<noteq> [] \<and> 2 \<le> length r3
            \<and> hd r3 \<in> set ''MTG'' \<and> hd (tl r3) = CHR ''B''
         then Some (w1 @ amount @ w2 @ take 2 r3) else None)"

fun findall_from :: "nat \<Rightarrow> string \<Rightarrow> string list" where
  "findall_from skip [] = []"
| "findall_from skip (c # cs) =
     (if 0 < skip then findall_from (skip - 1) cs
      else (case match_capacity (c # cs) of
              Some m \<Rightarrow> m # findall_from (length m - 1) cs
            | None \<Rightarrow> findall_from 0 cs))"

definition findall_capacity :: "string \<Rightarrow> string list" where
  "findall_capacity line = findall_from 0 line"

section \<open>The environment fingerprinter\<close>

text \<open>
  The table \<open>info\<close> is a Python dictionary: an assignment to a new key appends it, an
  assignment to a key already there replaces its value in place. A value is a string, or
  what \<open>psutil.cpu_count\<close> returns (a number or \<open>None\<close>).
\<close>

datatype fact_value = Text string | Count "nat option"

type_synonym info = "(string \<times> fact_value) list"

fun put :: "string \<Rightarrow> fact_value \<Rightarrow> info \<Rightarrow> info" where
  "put k v [] = [(k, v)]"
| "put k v ((k', v') # rest) = (if k' = k then (k, v) # rest else (k', v') # put k v rest)"

definition has_key :: "string \<Rightarrow> info \<Rightarrow> bool" where
  "has_key k info = (k \<in> set (map fst info))"

text \<open>
  The machine as the fingerprinter sees it. A command is \<open>subprocess.check_output\<close>
  followed by \<open>decode\<close>: its output, or the exception raised when the tool is absent, fails
  or prints bytes that do not decode. \<open>smartctl\<close> and \<open>lsblk\<close> take the base device.
\<close>

record host =
  in_docker :: bool
  external_benchmark_dir :: string
  lscpu :: "py_error + string"
  processor :: string
  cpu_count_physical :: "nat option"
  cpu_count_logical :: "nat option"
  memory_total :: nat
  dmidecode :: "py_error + string"
  system_name :: string
  release :: string
  df :: "py_error + string"
  df_T :: "py_error + string"
  nvme_list :: "py_error + string"
  smartctl :: "string \<Rightarrow> py_error + string"
  lshw :: "py_error + string"
  lsblk :: "string \<Rightarrow> py_error + string"
  docker_version :: "py_error + string"
  hostname :: "py_error + string"

text \<open>
  Three behaviours of the Python runtime that are kept abstract: the text
  \<^verbatim>\<open>f"{float(s):.0f}"\<close> of a string (nothing when \<open>float\<close> raises \<open>ValueError\<close>), the text
  \<^verbatim>\<open>f"{total / (1024**3):.1f}"\<close> of a byte count, and the order in which a \<open>set\<close> made from
  a list is iterated.
\<close>

record runtime =
  float_0f :: "string \<Rightarrow> string option"
  gib_1f :: "nat \<Rightarrow> string"
  set_order :: "string list \<Rightarrow> string list"

text \<open>
  A loop over lines: the body returns the new state and how it ended (it fell through,
  it reached \<open>break\<close>, or it raised). The loop returns the state it reached and the
  exception that ended it, if any: assignments made before the exception stay.
\<close>

datatype flow = Next | Break | Raise py_error

fun for_each :: "('a \<Rightarrow> 's \<Rightarrow> 's \<times> flow) \<Rightarrow> 'a list \<Rightarrow> 's \<Rightarrow> 's \<times> py_error option" where
  "for_each body [] s = (s, None)"
| "for_each body (x # xs) s =
     (case body x s of
        (s', Next) \<Rightarrow> for_each body xs s'
      | (s', Break) \<Rightarrow> (s', None)
      | (s', Raise e) \<Rightarrow> (s', Some e))"

text \<open>\<open>info[k] = v\<close> where computing \<open>v\<close> can raise.\<close>

definition assign :: "string \<Rightarrow> py_error + string \<Rightarrow> info \<Rightarrow> info \<times> flow" where
  "assign k r info = (case r of Inl e \<Rightarrow> (info, Raise e) | Inr v \<Rightarrow> (put k (Text v) info, Next))"

subsection \<open>CPU\<close>

text \<open>
  \<^verbatim>\<open>
  try:
      lscpu = subprocess.check_output(["lscpu"]).decode()
      for line in lscpu.split("\n"):
          if "Model name:" in line:
              info["CPU Model"] = line.split(":", 1)[1].strip()
          elif "CPU MHz:" in line:
              info["CPU Clock"] = f"{float(line.split(':')[1].strip()):.0f} MHz"
          elif "L1d cache:" in line:
              info["L1d Cache"] = line.split(":")[1].strip()
          elif "L1i cache:" in line:
              info["L1i Cache"] = line.split(":")[1].strip()
          elif "L2 cache:" in line:
              info["L2 Cache"] = line.split(":")[1].strip()
          elif "L3 cache:" in line:
              info["L3 Cache"] = line.split(":")[1].strip()
  except:
      info["CPU Model"] = platform.processor() or "Unknown"
  \<close>
\<close>

definition cpu_clock :: "runtime \<Rightarrow> string \<Rightarrow> py_error + string" where
  "cpu_clock rt line =
     and_then (second_field line) (\<lambda>v.
       case float_0f rt v of None \<Rightarrow> Inl ValueError | Some t \<Rightarrow> Inr (t @ '' MHz''))"

definition lscpu_line :: "runtime \<Rightarrow> string \<Rightarrow> info \<Rightarrow> info \<times> flow" where
  "lscpu_line rt line info =
     (if contains ''Model name:'' line then assign ''CPU Model'' (value_after_colon line) info
      else if contains ''CPU MHz:'' line then assign ''CPU Clock'' (cpu_clock rt line) info
      else if contains ''L1d cache:'' line then assign ''L1d Cache'' (second_field line) info
      else if contains ''L1i cache:'' line then assign ''L1i Cache'' (second_field line) info
      else if contains ''L2 cache:'' line then assign ''L2 Cache'' (second_field line) info
      else if contains ''L3 cache:'' line then assign ''L3 Cache'' (second_field line) info
      else (info, Next))"

definition processor_or_unknown :: "host \<Rightarrow> fact_value" where
  "processor_or_unknown h = Text (if processor h = [] then ''Unknown'' else processor h)"

definition cpu_info :: "runtime \<Rightarrow> host \<Rightarrow> info \<Rightarrow> info" where
  "cpu_info rt h info =
     (case lscpu h of
        Inl e \<Rightarrow> put ''CPU Model'' (processor_or_unknown h) info
      | Inr out \<Rightarrow>
          (case for_each (lscpu_line rt) (split_on LF out) info of
             (info', None) \<Rightarrow> info'
           | (info', Some e) \<Rightarrow> put ''CPU Model'' (processor_or_unknown h) info'))"

subsection \<open>Memory\<close>

text \<open>
  \<^verbatim>\<open>
  for line in dmidecode.split("\n"):
      if "Type:" in line and "DDR" in line:
          types.append(line.split(":")[1].strip())
      elif "Speed:" in line and "MT/s" in line:
          speeds.append(line.split(":")[1].strip())
      elif "Size:" in line and ("GB" in line or "MB" in line):
          if "Volatile" in line:
              continue
          sizes.append(line.split(":")[1].strip())
  \<close>
  The state of the loop is the three lists \<open>types\<close>, \<open>speeds\<close> and \<open>sizes\<close>.
\<close>

definition dmidecode_line ::
  "string \<Rightarrow> string list \<times> string list \<times> string list
     \<Rightarrow> (string list \<times> string list \<times> string list) \<times> flow" where
  "dmidecode_line line st =
     (case st of (types, speeds, sizes) \<Rightarrow>
        if contains ''Type:'' line \<and> contains ''DDR'' line then
          (case second_field line of
             Inl e \<Rightarrow> (st, Raise e) | Inr v \<Rightarrow> ((types @ [v], speeds, sizes), Next))
        else if contains ''Speed:'' line \<and> contains ''MT/s'' line then
          (case second_field line of
             Inl e \<Rightarrow> (st, Raise e) | Inr v \<Rightarrow> ((types, speeds @ [v], sizes), Next))
        else if contains ''Size:'' line \<and> (contains ''GB'' line \<or> contains ''MB'' line) then
          (if contains ''Volatile'' line then (st, Next)
           else (case second_field line of
                   Inl e \<Rightarrow> (st, Raise e) | Inr v \<Rightarrow> ((types, speeds, sizes @ [v]), Next)))
        else (st, Next))"

text \<open>
  \<^verbatim>\<open>
  if types and speeds:
      info["Memory Type"] = types[0] if len(set(types)) == 1 else ", ".join(set(types))
      info["Memory Speed"] = (
          speeds[0] if len(set(speeds)) == 1 else ", ".join(set(speeds))
      )
      if sizes:
          info["Memory Config"] = (
              f"{len(sizes)}x{sizes[0]}" if len(set(sizes)) == 1 else ", ".join(sizes)
          )
  \<close>
\<close>

definition one_or_all :: "runtime \<Rightarrow> string list \<Rightarrow> string" where
  "one_or_all rt xs =
     (if length (remdups xs) = 1 then hd xs else join '', '' (set_order rt xs))"

definition memory_summary ::
  "runtime \<Rightarrow> string list \<times> string list \<times> string list \<Rightarrow> info \<Rightarrow> info" where
  "memory_summary rt st info =
     (case st of (types, speeds, sizes) \<Rightarrow>
        if types \<noteq> [] \<and> speeds \<noteq> [] then
          (let info1 = put ''Memory Type'' (Text (one_or_all rt types)) info;
               info2 = put ''Memory Speed'' (Text (one_or_all rt speeds)) info1
           in if sizes \<noteq> [] then
                put ''Memory Config''
                  (Text (if length (remdups sizes) = 1
                         then show_nat (length sizes) @ ''x'' @ hd sizes
                         else join '', '' sizes)) info2
              else info2)
        else info)"

text \<open>
  \<^verbatim>\<open>
  if not in_docker:
      try:
          dmidecode = subprocess.check_output(
              ["sudo", "dmidecode", "-t", "memory"], stderr=subprocess.DEVNULL
          ).decode()
          ...
      except:
          pass
  \<close>
\<close>

definition memory_details :: "runtime \<Rightarrow> host \<Rightarrow> info \<Rightarrow> info" where
  "memory_details rt h info =
     (if in_docker h then info
      else
        (case dmidecode h of
           Inl e \<Rightarrow> info
         | Inr out \<Rightarrow>
             (case for_each dmidecode_line (split_on LF out) ([], [], []) of
                (st, None) \<Rightarrow> memory_summary rt st info
              | (st, Some e) \<Rightarrow> info)))"

subsection \<open>Drive\<close>

text \<open>
  \<^verbatim>\<open>
  df_output = subprocess.check_output(["df", BENCHMARK_DIR]).decode()
  device = df_output.split("\n")[1].split()[0]
  fs_output = subprocess.check_output(["df", "-T", BENCHMARK_DIR]).decode()
  info["Filesystem"] = fs_output.split("\n")[1].split()[1]
  \<close>
  The device and the file system type, or the first exception on the way.
\<close>

definition mount_lookup :: "host \<Rightarrow> py_error + string \<times> string" where
  "mount_lookup h =
     and_then (df h) (\<lambda>df_output.
     and_then (py_nth (split_on LF df_output) 1) (\<lambda>line.
     and_then (py_nth (split_ws line) 0) (\<lambda>device.
     and_then (df_T h) (\<lambda>fs_output.
     and_then (py_nth (split_on LF fs_output) 1) (\<lambda>fs_line.
     and_then (py_nth (split_ws fs_line) 1) (\<lambda>fs.
     Inr (device, fs)))))))"

text \<open>
  \<^verbatim>\<open>
  base_device = re.sub(r"\d+$", "", device)  # Remove trailing numbers
  base_device = re.sub(r"p$", "", base_device)  # Remove pX for nvme drives
  base_device = re.sub(r"n\d+$", "", base_device)  # Remove trailing n
  \<close>
\<close>

definition base_device_of :: "string \<Rightarrow> string" where
  "base_device_of device = sub_trailing_n_digits (sub_trailing_p (sub_trailing_digits device))"

text \<open>\<open>base_device.split("/")[-1]\<close>\<close>

definition device_name :: "string \<Rightarrow> string" where
  "device_name base_device = last (split_on CHR ''/'' base_device)"

text \<open>
  \<^verbatim>\<open>
  for line in lines:  # Skip header
      if base_device.split("/")[-1] in line:
          line = re.sub(r"^[^\s]+\s+[^\s]+\s+[^\s]+\s+", "x  x  x  ", line)
          parts = re.split(r"\s{2,}", line.strip())
          if len(parts) >= 4:
              info["Drive Model"] = parts[3]  # Model column
              info["Drive Type"] = "NVMe SSD"
              info["Drive Interface"] = "NVMe"
              info["Drive Capacity"] = re.findall(r"\s+[0-9\.]+\s+[MTG]B", line)[
                  -1
              ].strip()
              break
  \<close>
\<close>

definition nvme_line :: "string \<Rightarrow> string \<Rightarrow> info \<Rightarrow> info \<times> flow" where
  "nvme_line base_device line info =
     (if contains (device_name base_device) line then
        (let line' = sub_three_columns line; parts = split_wide (strip line') in
         if 4 \<le> length parts then
           (let info1 = put ''Drive Model'' (Text (parts ! 3)) info;
                info2 = put ''Drive Type'' (Text ''NVMe SSD'') info1;
                info3 = put ''Drive Interface'' (Text ''NVMe'') info2
            in case py_last (findall_capacity line') of
                 Inl e \<Rightarrow> (info3, Raise e)
               | Inr c \<Rightarrow> (put ''Drive Capacity'' (Text (strip c)) info3, Break))
         else (info, Next))
      else (info, Next))"

text \<open>
  \<^verbatim>\<open>
  try:
      nvme_output = subprocess.check_output(
          ["nvme", "list"], stderr=subprocess.DEVNULL
      ).decode()
      lines = nvme_output.strip().split("\n")
      for line in lines: ...
  except:
      pass
  \<close>
\<close>

definition nvme_probe :: "host \<Rightarrow> string \<Rightarrow> info \<Rightarrow> info" where
  "nvme_probe h base_device info =
     (case nvme_list h of
        Inl e \<Rightarrow> info
      | Inr out \<Rightarrow> fst (for_each (nvme_line base_device) (split_on LF (strip out)) info))"

text \<open>
  \<^verbatim>\<open>
  for line in smart.split("\n"):
      if "Device Model:" in line or "Model Number:" in line:
          info["Drive Model"] = line.split(":", 1)[1].strip()
      elif "Rotation Rate:" in line:
          if "Solid State" in line:
              info["Drive Type"] = "SSD"
          else:
              info["Drive Type"] = f"HDD ({line.split(':')[1].strip()})"
  \<close>
\<close>

definition smartctl_line :: "string \<Rightarrow> info \<Rightarrow> info \<times> flow" where
  "smartctl_line line info =
     (if contains ''Device Model:'' line \<or> contains ''Model Number:'' line then
        assign ''Drive Model'' (value_after_colon line) info
      else if contains ''Rotation Rate:'' line then
        (if contains ''Solid State'' line then (put ''Drive Type'' (Text ''SSD'') info, Next)
         else assign ''Drive Type''
                (and_then (second_field line) (\<lambda>v. Inr (''HDD ('' @ v @ '')''))) info)
      else (info, Next))"

definition smartctl_probe :: "host \<Rightarrow> string \<Rightarrow> info \<Rightarrow> info" where
  "smartctl_probe h base_device info =
     (case smartctl h base_device of
        Inl e \<Rightarrow> info
      | Inr out \<Rightarrow> fst (for_each smartctl_line (split_on LF out) info))"

text \<open>
  \<^verbatim>\<open>
  finish_up = False
  for line in lshw.split("\n"):
      if "product:" in line:
          info["Drive Model"] = line.split(":", 1)[1].strip()
      elif "vendor:" in line and "Drive Model" in info:
          info["Drive Vendor"] = line.split(":", 1)[1].strip()
      elif "size:" in line and "Drive Model" in info:
          info["Drive Size"] = line.split(":", 1)[1].strip()
      if finish_up and "*-" in line and "namespace" not in line:
          break
      elif "logical name:" in line and base_device.split("/")[-1] in line:
          finish_up = True
  \<close>
  The state of the loop is the table and the flag \<open>finish_up\<close>.
\<close>

definition lshw_assign :: "string \<Rightarrow> info \<Rightarrow> info \<times> flow" where
  "lshw_assign line info =
     (if contains ''product:'' line then assign ''Drive Model'' (value_after_colon line) info
      else if contains ''vendor:'' line \<and> has_key ''Drive Model'' info then
        assign ''Drive Vendor'' (value_after_colon line) info
      else if contains ''size:'' line \<and> has_key ''Drive Model'' info then
        assign ''Drive Size'' (value_after_colon line) info
      else (info, Next))"

definition lshw_line :: "string \<Rightarrow> string \<Rightarrow> info \<times> bool \<Rightarrow> (info \<times> bool) \<times> flow" where
  "lshw_line base_device line st =
     (case st of (info, finish_up) \<Rightarrow>
        (case lshw_assign line info of
           (info', Raise e) \<Rightarrow> ((info', finish_up), Raise e)
         | (info', _) \<Rightarrow>
             if finish_up \<and> contains ''*-'' line \<and> \<not> contains ''namespace'' line
             then ((info', finish_up), Break)
             else if contains ''logical name:'' line \<and> contains (device_name base_device) line
             then ((info', True), Next)
             else ((info', finish_up), Next)))"

definition lshw_probe :: "host \<Rightarrow> string \<Rightarrow> info \<Rightarrow> info" where
  "lshw_probe h base_device info =
     (case lshw h of
        Inl e \<Rightarrow> info
      | Inr out \<Rightarrow> fst (fst (for_each (lshw_line base_device) (split_on LF out) (info, False))))"

text \<open>
  \<^verbatim>\<open>
  try:
      if "Drive Model" not in info:
          lsblk = subprocess.check_output(
              ["lsblk", "-o", "NAME,MODEL,ROTA,SIZE", "-n", base_device],
              stderr=subprocess.DEVNULL,
          ).decode()
          parts = lsblk.strip().split()
          if len(parts) >= 2 and parts[1] != "":
              info["Drive Model"] = " ".join(parts[1:-2]) if len(parts) > 3 else parts[1]
              if len(parts) >= 3:
                  info["Drive Type"] = "HDD" if parts[-2] == "1" else "SSD"
              if len(parts) >= 4:
                  info["Drive Capacity"] = parts[-1]
  except:
      pass
  \<close>
  Every index is within the length that the condition around it has checked.
\<close>

definition lsblk_facts :: "string list \<Rightarrow> info \<Rightarrow> info" where
  "lsblk_facts parts info =
     (if 2 \<le> length parts \<and> parts ! 1 \<noteq> [] then
        (let info1 = put ''Drive Model''
                       (Text (if 3 < length parts
                              then join '' '' (take (length parts - 3) (drop 1 parts))
                              else parts ! 1)) info;
             info2 = (if 3 \<le> length parts
                      then put ''Drive Type''
                             (Text (if parts ! (length parts - 2) = ''1'' then ''HDD'' else ''SSD''))
                             info1
                      else info1)
         in if 4 \<le> length parts then put ''Drive Capacity'' (Text (last parts)) info2 else info2)
      else info)"

definition lsblk_probe :: "host \<Rightarrow> string \<Rightarrow> info \<Rightarrow> info" where
  "lsblk_probe h base_device info =
     (if \<not> has_key ''Drive Model'' info then
        (case lsblk h base_device of
           Inl e \<Rightarrow> info
         | Inr out \<Rightarrow> lsblk_facts (split_ws (strip out)) info)
      else info)"

text \<open>
  \<^verbatim>\<open>
  if "/dev/" in device:
      base_device = ...
      if "nvme" in base_device:
          try: ... nvme list ...
      # Fallback methods if not in Docker or nvme list fails
      if "Drive Model" not in info and not in_docker:
          try: ... # Method 1: smartctl
          try: ... # Method 2: lshw (very detailed)
      # Method 3: lsblk (should work in Docker)
      try: ...
  \<close>
\<close>

definition drive_probes :: "host \<Rightarrow> string \<Rightarrow> info \<Rightarrow> info" where
  "drive_probes h device info =
     (if contains ''/dev/'' device then
        (let base_device = base_device_of device;
             info1 = (if contains ''nvme'' base_device then nvme_probe h base_device info
                      else info);
             info2 = (if \<not> has_key ''Drive Model'' info1 \<and> \<not> in_docker h
                      then lshw_probe h base_device (smartctl_probe h base_device info1)
                      else info1)
         in lsblk_probe h base_device info2)
      else info)"

text \<open>
  \<^verbatim>\<open>
  try:
      ... df, df -T, the probes ...
  except:
      info["Drive"] = "Unknown"
  \<close>
  Every probe catches its own exceptions, so only the two lookups reach this handler.
\<close>

definition drive_info :: "host \<Rightarrow> info \<Rightarrow> info" where
  "drive_info h info =
     (case mount_lookup h of
        Inl e \<Rightarrow> put ''Drive'' (Text ''Unknown'') info
      | Inr (device, fs) \<Rightarrow> drive_probes h device (put ''Filesystem'' (Text fs) info))"

subsection \<open>Container runtime\<close>

text \<open>
  \<^verbatim>\<open>
  try:
      docker_version = subprocess.check_output(["docker", "--version"]).decode().strip()
      info["Docker"] = docker_version
      if in_docker:
          info["Environment"] = "Inside Docker Container"
          try:
              hostname = subprocess.check_output(["hostname"]).decode().strip()
              info["Container Hostname"] = hostname
          except:
              pass
      else:
          info["Environment"] = "Host System"
  except:
      info["Docker"] = "Not detected"
      info["Environment"] = "Docker Container" if in_docker else "Host System"
  \<close>
\<close>

definition docker_info :: "host \<Rightarrow> info \<Rightarrow> info" where
  "docker_info h info =
     (case docker_version h of
        Inl e \<Rightarrow>
          put ''Environment'' (Text (if in_docker h then ''Docker Container'' else ''Host System''))
            (put ''Docker'' (Text ''Not detected'') info)
      | Inr v \<Rightarrow>
          (let info1 = put ''Docker'' (Text (strip v)) info in
           if in_docker h then
             (let info2 = put ''Environment'' (Text ''Inside Docker Container'') info1 in
              case hostname h of
                Inl e \<Rightarrow> info2
              | Inr n \<Rightarrow> put ''Container Hostname'' (Text (strip n)) info2)
           else put ''Environment'' (Text ''Host System'') info1))"

subsection \<open>The whole table\<close>

text \<open>
  \<^verbatim>\<open>
  info["CPU Cores"] = psutil.cpu_count(logical=False)
  info["CPU Threads"] = psutil.cpu_count(logical=True)
  mem = psutil.virtual_memory()
  info["Memory Total"] = f"{mem.total / (1024**3):.1f} GB"
  ...
  info["OS"] = f"{platform.system()} {platform.release()}"
  \<close>
\<close>

definition get_system_info :: "runtime \<Rightarrow> host \<Rightarrow> info" where
  "get_system_info rt h =
     (let info1 = cpu_info rt h [];
          info2 = put ''CPU Cores'' (Count (cpu_count_physical h)) info1;
          info3 = put ''CPU Threads'' (Count (cpu_count_logical h)) info2;
          info4 = put ''Memory Total'' (Text (gib_1f rt (memory_total h) @ '' GB'')) info3;
          info5 = memory_details rt h info4;
          info6 = put ''OS'' (Text (system_name h @ '' '' @ release h)) info5;
          info7 = drive_info h info6
      in docker_info h info7)"

section \<open>The program\<close>

text \<open>
  \<^verbatim>\<open>
  if in_docker:
      BENCHMARK_DIR = DOCKER_BENCHMARK_DIR
  else:
      BENCHMARK_DIR = EXTERNAL_BENCHMARK_DIR
  \<close>
\<close>

definition BENCHMARK_DIR :: "host \<Rightarrow> string" where
  "BENCHMARK_DIR h = (if in_docker h then ''/ngen/bench/results'' else external_benchmark_dir h)"

text \<open>
  How a run of \<open>main\<close> ends: it printed one message and returned; it printed the report
  (the table of facts, then the sorted rows) and wrote \<open>benchmark_summary.csv\<close> from the same
  facts and rows; it printed the report and the writing of the file raised; or an exception
  left \<open>main\<close> before any output. The calls \<open>os.path.exists\<close>, \<open>is_dir\<close>, \<open>print\<close> and
  those of \<open>psutil\<close> and \<open>platform\<close> are taken to return.
\<close>

datatype 'n outcome =
  Stopped string
| Reported info "'n row list"
| ReportedOnly info "'n row list" py_error
| Crashed py_error

text \<open>
  \<^verbatim>\<open>
  def main():
      results = []
      if not os.path.exists(BENCHMARK_DIR):
          print(f"Error: Benchmark directory '{BENCHMARK_DIR}' does not exist")
          return
      for dirname in os.listdir(BENCHMARK_DIR): ...
      if not results:
          print("No benchmark results found")
          return
      df = pd.DataFrame(results)
      df = df.sort_values(["Operations", "Duration"])
      sys_info = get_system_info()
      ... print the facts and the rows ...
      csv_path = Path(BENCHMARK_DIR) / "benchmark_summary.csv"
      with open(csv_path, "w") as f: ... the facts ...
      df.to_csv(csv_path, mode="a", index=False)
  \<close>
\<close>

definition main :: "runtime \<Rightarrow> 'n arith \<Rightarrow> host \<Rightarrow> 'n results_root \<Rightarrow> 'n outcome" where
  "main rt ar h root =
     (if \<not> root_exists root then
        Stopped (''Error: Benchmark directory '' @ [CHR 0x27] @ BENCHMARK_DIR h @ [CHR 0x27]
                 @ '' does not exist'')
      else
        (case listdir root of
           Inl e \<Rightarrow> Crashed e
         | Inr entries \<Rightarrow>
             (case collect_results ar root entries of
                Inl e \<Rightarrow> Crashed e
              | Inr results \<Rightarrow>
                  if results = [] then Stopped ''No benchmark results found''
                  else
                    (case write_csv root of
                       None \<Rightarrow> Reported (get_system_info rt h) (sort_values results)
                     | Some e \<Rightarrow> ReportedOnly (get_system_info rt h) (sort_values results) e))))"

text \<open>The rows that a run printed, if it printed a report.\<close>

fun reported_rows :: "'n outcome \<Rightarrow> 'n row list option" where
  "reported_rows (Reported facts rows) = Some rows"
| "reported_rows (ReportedOnly facts rows e) = Some rows"
| "reported_rows (Stopped message) = None"
| "reported_rows (Crashed e) = None"

section \<open>Directory keys and sample inputs\<close>

text \<open>
  The sort key that a directory entry contributes, if it qualifies: the operation count as
  a number and the duration tag.
\<close>

definition dir_key :: "'n results_root \<Rightarrow> string \<Rightarrow> (nat \<times> string) option" where
  "dir_key root dirname =
     (if is_dir root dirname then
        (case parse_result_dir dirname of
           None \<Rightarrow> None
         | Some (dur, ops, gag) \<Rightarrow> Some (int_of_digits ops, dur))
      else None)"

text \<open>
  An instance of the arithmetic for examples: seconds counted in millionths, as integers,
  for measurements that are written with at most six decimals. Rounding to three decimals
  is rounding to a multiple of 1000. That is what \<open>round(x, 3)\<close> returns for the float
  nearest to such a decimal whenever the decimal is not half-way between two multiples;
  half-way, the result of Python depends on the side on which the float lies (it rounds
  0.0025 to 0.003 and 0.0625 to 0.062), and the tie rule below, to the even neighbour, is a
  choice of this instance. The examples use it away from ties only. No addition raises.
\<close>

definition round_thousand :: "int \<Rightarrow> int" where
  "round_thousand x =
     (let q = x div 1000; r = x mod 1000 in
      if r < 500 then 1000 * q
      else if 500 < r then 1000 * (q + 1)
      else if even q then 1000 * q else 1000 * (q + 1))"

definition micros :: "int arith" where
  "micros = \<lparr>is_zero = (\<lambda>x. x = 0), of_truth = (\<lambda>b. if b then 1000000 else 0),
             add = (\<lambda>x y. Inr (x + y)), round3 = round_thousand\<rparr>"

text \<open>A measurement file \<^verbatim>\<open>{"results": [{"mean": v}]}\<close>.\<close>

definition hyperfine_file :: "'n json \<Rightarrow> 'n json" where
  "hyperfine_file v = JObj [(''results'', JArr [JObj [(''mean'', v)]])]"

text \<open>
  A results root that can be listed and written to, in which every listed entry is a
  directory and the measurement files are given by a table from (entry, file name) to the
  decoded document; a file that is not in the table does not exist.
\<close>

definition root_of :: "string list \<Rightarrow> ((string \<times> string) \<times> 'n json) list \<Rightarrow> 'n results_root" where
  "root_of entries files =
     \<lparr>root_exists = True, listdir = Inr entries, is_dir = (\<lambda>d. d \<in> set entries),
      read_json = (\<lambda>d f. case map_of files (d, f) of None \<Rightarrow> Inl OSError | Some doc \<Rightarrow> Inr doc),
      write_csv = None\<rparr>"

text \<open>A machine on which every external tool is missing, outside a container.\<close>

definition bare_host :: host where
  "bare_host =
     \<lparr>in_docker = False, external_benchmark_dir = ''/home/user/.ngiab/bench/results'',
      lscpu = Inl OSError, processor = [], cpu_count_physical = Some 4,
      cpu_count_logical = Some 8, memory_total = 17179869184, dmidecode = Inl OSError,
      system_name = ''Linux'', release = ''6.1.0'', df = Inl OSError, df_T = Inl OSError,
      nvme_list = Inl OSError, smartctl = (\<lambda>d. Inl OSError), lshw = Inl OSError,
      lsblk = (\<lambda>d. Inl OSError), docker_version = Inl OSError, hostname = Inl OSError\<rparr>"

text \<open>
  The runtime on the few strings and numbers that the examples meet: \<open>float\<close> accepts
  \<open>2400.000\<close> and rejects \<open>2400,000\<close>, and sixteen gibibytes print as \<open>16.0\<close>. Elements of a
  set come in the order of their first occurrence.
\<close>

definition sample_runtime :: runtime where
  "sample_runtime =
     \<lparr>float_0f = (\<lambda>s. if s = ''2400.000'' then Some ''2400'' else None),
      gib_1f = (\<lambda>n. if n = 17179869184 then ''16.0'' else ''?''),
      set_order = remdups\<rparr>"

text \<open>
  The output of \<open>df\<close> and of \<open>df -T\<close> for a results directory on the partition
  \<open>/dev/sda1\<close>.
\<close>

definition df_sda1 :: string where
  "df_sda1 = ''Filesystem 1K-blocks Used Available Use% Mounted on'' @ [LF]
             @ ''/dev/sda1 1000 10 990 1% /'' @ [LF]"

definition df_T_sda1 :: string where
  "df_T_sda1 = ''Filesystem Type 1K-blocks Used Available Use% Mounted on'' @ [LF]
               @ ''/dev/sda1 ext4 1000 10 990 1% /'' @ [LF]"

text \<open>
  For reasoning about the loop of \<open>main\<close>: whether the row of an entry raises, and the rows
  of the entries that qualify.
\<close>

definition raises :: "'n arith \<Rightarrow> 'n results_root \<Rightarrow> string \<Rightarrow> bool" where
  "raises ar root dirname =
     (case row_of_dir ar root dirname of Some (Inl e) \<Rightarrow> True | _ \<Rightarrow> False)"

definition built_rows :: "'n arith \<Rightarrow> 'n results_root \<Rightarrow> string list \<Rightarrow> 'n row list" where
  "built_rows ar root entries =
     concat (map (\<lambda>d. case row_of_dir ar root d of Some (Inr r) \<Rightarrow> [r] | _ \<Rightarrow> []) entries)"

text \<open>
  Three machines for the examples: one where the two lookups succeed and no drive tool
  exists; one where, besides, \<open>smartctl\<close> names the model of \<open>/dev/sda\<close> and \<open>lshw\<close> lists
  another disk; one whose \<open>lscpu\<close> prints the clock with a decimal comma, which \<open>float\<close> rejects;
  and one whose \<open>lscpu\<close> prints it with a decimal point.
\<close>

definition host_sda :: host where
  "host_sda = bare_host\<lparr>df := Inr df_sda1, df_T := Inr df_T_sda1\<rparr>"

definition host_two_models :: host where
  "host_two_models =
     host_sda\<lparr>smartctl := (\<lambda>d. if d = ''/dev/sda'' then Inr ''Device Model: Samsung SSD 860''
                              else Inl CalledProcessError),
               lshw := Inr (''product: WDC WD10EZEX'' @ [LF] @ ''logical name: /dev/sdb'')\<rparr>"

definition host_bad_clock :: host where
  "host_bad_clock =
     bare_host\<lparr>lscpu := Inr (''Model name: Xeon E5'' @ [LF] @ ''CPU MHz: 2400,000'' @ [LF]
                             @ ''L2 cache: 1 MiB'')\<rparr>"

definition host_good_clock :: host where
  "host_good_clock =
     bare_host\<lparr>lscpu := Inr (''Model name: Xeon E5'' @ [LF] @ ''CPU MHz: 2400.000'' @ [LF]
                              @ ''L2 cache: 1 MiB'')\<rparr>"

text \<open>The keys that each part of the fingerprinter can assign.\<close>

definition cpu_keys :: "string set" where
  "cpu_keys = {''CPU Model'', ''CPU Clock'', ''L1d Cache'', ''L1i Cache'', ''L2 Cache'', ''L3 Cache''}"

definition memory_keys :: "string set" where
  "memory_keys = {''Memory Type'', ''Memory Speed'', ''Memory Config''}"

definition drive_keys :: "string set" where
  "drive_keys = {''Drive Model'', ''Drive Type'', ''Drive Interface'', ''Drive Capacity'',
                 ''Drive Vendor'', ''Drive Size''}"

definition docker_keys :: "string set" where
  "docker_keys = {''Docker'', ''Environment'', ''Container Hostname''}"

section \<open>Lemmas on the decoder\<close>

lemma takeWhile_digits_unit:
  assumes "list_all is_digit ds" "\<not> is_digit u"
  shows "takeWhile is_digit (ds @ u # r) = ds" "dropWhile is_digit (ds @ u # r) = u # r"
  using assms by (induction ds) auto

lemma unit_not_digit: "is_unit_letter c \<Longrightarrow> \<not> is_digit c"
  by (auto simp: is_unit_letter_def is_digit_def)

lemma underscore_not_digit: "\<not> is_digit CHR ''_''"
  by (simp add: is_digit_def)

lemma takeWhile_dot_rest:
  assumes "list_all is_dot g" "r = [] \<or> hd r = LF"
  shows "takeWhile is_dot (g @ r) = g"
proof (cases r)
  case Nil
  with assms(1) show ?thesis by (simp add: list_all_iff)
next
  case (Cons c cs)
  with assms have "\<not> is_dot c" by (simp add: is_dot_def)
  with assms(1) Cons show ?thesis by (induction g) auto
qed

lemma parse_result_dir_prefix:
  assumes "is_duration_tag d" "is_operation_count os" "g \<noteq> []" "list_all is_dot g"
    and "r = [] \<or> hd r = LF"
  shows "parse_result_dir (d @ ''_'' @ os @ ''_'' @ g @ r) = Some (d, os, g)"
proof -
  from assms(1) obtain ds u where d: "d = ds @ [u]" and ds: "ds \<noteq> []" "list_all is_digit ds"
    and u: "is_unit_letter u"
    unfolding is_duration_tag_def by (metis append_butlast_last_id)
  from assms(2) have os: "os \<noteq> []" "list_all is_digit os"
    by (simp_all add: is_operation_count_def)
  let ?r2 = "CHR ''_'' # os @ CHR ''_'' # g @ r"
  have name: "d @ ''_'' @ os @ ''_'' @ g @ r = ds @ u # ?r2"
    by (simp add: d)
  have t1: "takeWhile is_digit (ds @ u # ?r2) = ds" "dropWhile is_digit (ds @ u # ?r2) = u # ?r2"
    using takeWhile_digits_unit [OF ds(2) unit_not_digit [OF u]] by simp_all
  have t2: "takeWhile is_digit (os @ CHR ''_'' # g @ r) = os"
    "dropWhile is_digit (os @ CHR ''_'' # g @ r) = CHR ''_'' # g @ r"
    using takeWhile_digits_unit [OF os(2) underscore_not_digit] by simp_all
  have t3: "takeWhile is_dot (g @ r) = g"
    using takeWhile_dot_rest [OF assms(4,5)] .
  show ?thesis
    unfolding name parse_result_dir_def
    by (simp add: Let_def t1 t2 t3 ds os u assms(3) d)
qed

lemma parse_result_dir_shape:
  assumes "parse_result_dir name = Some (d, os, g)"
  shows "is_duration_tag d \<and> is_operation_count os \<and> g \<noteq> [] \<and> list_all is_dot g
    \<and> name = d @ ''_'' @ os @ ''_'' @ g @ dropWhile is_dot (drop (length d + length os + 2) name)"
proof -
  define ds where "ds = takeWhile is_digit name"
  define r1 where "r1 = dropWhile is_digit name"
  define r2 where "r2 = tl r1"
  define r3 where "r3 = dropWhile is_digit (tl r2)"
  have n1: "name = ds @ r1"
    by (simp add: ds_def r1_def)
  from assms have c1: "ds \<noteq> []" "r1 \<noteq> []" "is_unit_letter (hd r1)"
    unfolding parse_result_dir_def ds_def r1_def
    by (auto simp: Let_def split: if_splits)
  from assms c1 have c2: "r2 \<noteq> []" "hd r2 = CHR ''_''"
    unfolding parse_result_dir_def ds_def r1_def r2_def
    by (auto simp: Let_def split: if_splits)
  from assms c1 c2 have c3: "takeWhile is_digit (tl r2) \<noteq> []" "r3 \<noteq> []" "hd r3 = CHR ''_''"
    unfolding parse_result_dir_def ds_def r1_def r2_def r3_def
    by (auto simp: Let_def split: if_splits)
  from assms c1 c2 c3 have res: "d = ds @ [hd r1]" "os = takeWhile is_digit (tl r2)"
    "g = takeWhile is_dot (tl r3)" "g \<noteq> []"
    unfolding parse_result_dir_def ds_def r1_def r2_def r3_def
    by (auto simp: Let_def split: if_splits)
  have n2: "r1 = hd r1 # r2"
    using c1(2) by (simp add: r2_def)
  have n3: "r2 = CHR ''_'' # tl r2"
    using c2 by (metis list.collapse)
  have n4: "tl r2 = os @ r3"
    by (simp add: res(2) r3_def)
  have n5: "r3 = CHR ''_'' # tl r3"
    using c3(2,3) by (metis list.collapse)
  have n6: "tl r3 = g @ dropWhile is_dot (tl r3)"
    by (simp add: res(3))
  have whole: "name = d @ ''_'' @ os @ ''_'' @ tl r3"
    using n1 n2 n3 n4 n5 by (simp add: res(1))
  then have "drop (length d + length os + 2) name = tl r3"
    by simp
  with whole n6 have decomposition:
    "name = d @ ''_'' @ os @ ''_'' @ g @ dropWhile is_dot (drop (length d + length os + 2) name)"
    by simp
  have "is_duration_tag d"
    using c1 by (simp add: is_duration_tag_def res(1) ds_def list_all_iff)
      (metis set_takeWhileD)
  moreover have "is_operation_count os"
    using c3(1) by (simp add: is_operation_count_def res(2) list_all_iff)
      (metis set_takeWhileD)
  moreover have "list_all is_dot g"
    by (simp add: res(3) list_all_iff) (metis set_takeWhileD)
  ultimately show ?thesis
    using res(4) decomposition by blast
qed

lemma dropWhile_dot_head: "dropWhile is_dot xs = [] \<or> hd (dropWhile is_dot xs) = LF"
  by (metis hd_dropWhile is_dot_def)


lemma prefix_grammar_iff:
  "prefix_grammar name d os g \<longleftrightarrow>
     (\<exists>r. name = d @ ''_'' @ os @ ''_'' @ g @ r \<and> is_duration_tag d \<and> is_operation_count os
        \<and> g \<noteq> [] \<and> list_all is_dot g \<and> (r = [] \<or> hd r = LF))"
proof
  assume pg: "prefix_grammar name d os g"
  let ?p = "d @ ''_'' @ os @ ''_'' @ g"
  from pg have "take (length ?p) name = ?p"
    by (simp add: prefix_grammar_def Let_def)
  then have "name = ?p @ drop (length ?p) name"
    by (metis append_take_drop_id)
  then have "name = d @ ''_'' @ os @ ''_'' @ g @ drop (length ?p) name"
    by simp
  with pg show "\<exists>r. name = d @ ''_'' @ os @ ''_'' @ g @ r \<and> is_duration_tag d
      \<and> is_operation_count os \<and> g \<noteq> [] \<and> list_all is_dot g \<and> (r = [] \<or> hd r = LF)"
    unfolding prefix_grammar_def Let_def by blast
next
  assume "\<exists>r. name = d @ ''_'' @ os @ ''_'' @ g @ r \<and> is_duration_tag d
      \<and> is_operation_count os \<and> g \<noteq> [] \<and> list_all is_dot g \<and> (r = [] \<or> hd r = LF)"
  then obtain r where r: "name = (d @ ''_'' @ os @ ''_'' @ g) @ r" "is_duration_tag d"
    "is_operation_count os" "g \<noteq> []" "list_all is_dot g" "r = [] \<or> hd r = LF"
    by auto
  show "prefix_grammar name d os g"
    unfolding prefix_grammar_def Let_def r(1)
    using r(2-6) by simp
qed

lemma digit_not_LF: "is_digit c \<Longrightarrow> c \<noteq> LF"
  by (auto simp: is_digit_def)

lemma unit_not_LF: "is_unit_letter c \<Longrightarrow> c \<noteq> LF"
  by (auto simp: is_unit_letter_def)

lemma duration_tag_no_LF:
  assumes "is_duration_tag d"
  shows "LF \<notin> set d"
proof -
  from assms have d: "d = butlast d @ [last d]" and digits: "list_all is_digit (butlast d)"
    and u: "is_unit_letter (last d)"
    by (simp_all add: is_duration_tag_def)
  from digits have "LF \<notin> set (butlast d)"
    using digit_not_LF by (auto simp: list_all_iff)
  moreover from u have "LF \<noteq> last d"
    by (auto dest: unit_not_LF)
  ultimately have "LF \<notin> set (butlast d @ [last d])"
    by simp
  with d show ?thesis by simp
qed

lemma operation_count_no_LF: "is_operation_count os \<Longrightarrow> LF \<notin> set os"
  using digit_not_LF by (auto simp: is_operation_count_def list_all_iff)

lemma dots_no_LF: "list_all is_dot g \<Longrightarrow> LF \<notin> set g"
  by (auto simp: list_all_iff is_dot_def)

lemma anchored_is_prefix_grammar:
  "anchored_grammar name d os g \<longleftrightarrow> prefix_grammar name d os g \<and> LF \<notin> set name"
proof
  assume a: "anchored_grammar name d os g"
  then have parts: "name = d @ ''_'' @ os @ ''_'' @ g @ []" "is_duration_tag d"
    "is_operation_count os" "g \<noteq> []" "list_all is_dot g"
    by (simp_all add: anchored_grammar_def)
  then have "prefix_grammar name d os g"
    unfolding prefix_grammar_iff by blast
  moreover have "LF \<notin> set name"
    using duration_tag_no_LF [OF parts(2)] operation_count_no_LF [OF parts(3)]
      dots_no_LF [OF parts(5)]
    by (simp add: parts(1))
  ultimately show "prefix_grammar name d os g \<and> LF \<notin> set name" ..
next
  assume "prefix_grammar name d os g \<and> LF \<notin> set name"
  then obtain r where r: "name = d @ ''_'' @ os @ ''_'' @ g @ r" "is_duration_tag d"
    "is_operation_count os" "g \<noteq> []" "list_all is_dot g" "r = [] \<or> hd r = LF" "LF \<notin> set name"
    unfolding prefix_grammar_iff by blast
  from r(1,6,7) have "r = []"
    by (cases r) auto
  with r show "anchored_grammar name d os g"
    by (simp add: anchored_grammar_def)
qed

section \<open>The decoder and its grammar\<close>

text \<open>
  C6, as stated: \<open>parse_result_dir\<close> returns the triple exactly when the whole name matches
  the anchored grammar. It does not: a name with a line feed after the first gage character
  is decoded, the gage cut at the line feed, although the anchored grammar rejects the name.
\<close>

theorem parse_result_dir_anchored_counterexample:
  "parse_result_dir (''1d_1_a'' @ [LF] @ ''b'') = Some (''1d'', ''1'', ''a'')
   \<and> \<not> anchored_grammar (''1d_1_a'' @ [LF] @ ''b'') ''1d'' ''1'' ''a''"
  by (simp add: parse_result_dir_def anchored_grammar_def is_digit_def is_unit_letter_def is_dot_def)

text \<open>
  C6, amended: \<open>parse_result_dir\<close> returns the triple (duration, operations, gage) exactly
  when the name begins with one or more digits and one of d, m, y, an underscore, one or
  more digits, an underscore and a non-empty gage, where the gage ends at the end of the
  name or at its first line feed; it returns none for every other name; and
  \<open>30d_1000_gageA\<close> decodes to \<open>30d\<close>, \<open>1000\<close>, \<open>gageA\<close>.
\<close>

theorem parse_result_dir_grammar:
  "(parse_result_dir name = Some (d, os, g) \<longleftrightarrow> prefix_grammar name d os g)
   \<and> (parse_result_dir name = None \<longleftrightarrow> (\<nexists>d os g. prefix_grammar name d os g))
   \<and> parse_result_dir ''30d_1000_gageA'' = Some (''30d'', ''1000'', ''gageA'')"
proof -
  have iff: "parse_result_dir n = Some (a, b, c) \<longleftrightarrow> prefix_grammar n a b c" for n a b c
  proof
    assume p: "parse_result_dir n = Some (a, b, c)"
    from parse_result_dir_shape [OF p] dropWhile_dot_head
    show "prefix_grammar n a b c"
      unfolding prefix_grammar_iff by blast
  next
    assume "prefix_grammar n a b c"
    then show "parse_result_dir n = Some (a, b, c)"
      unfolding prefix_grammar_iff using parse_result_dir_prefix by blast
  qed
  have "parse_result_dir name = None \<longleftrightarrow> (\<nexists>d os g. prefix_grammar name d os g)"
  proof (cases "parse_result_dir name")
    case None
    then have "\<not> prefix_grammar name a b c" for a b c
      using iff [of name a b c] by simp
    with None show ?thesis by simp
  next
    case (Some t)
    obtain a b c where "t = (a, b, c)"
      by (cases t) auto
    with Some have "prefix_grammar name a b c"
      using iff [of name a b c] by simp
    with Some show ?thesis by auto
  qed
  moreover have "parse_result_dir ''30d_1000_gageA'' = Some (''30d'', ''1000'', ''gageA'')"
    by (simp add: parse_result_dir_def is_digit_def is_unit_letter_def is_dot_def)
  ultimately show ?thesis
    using iff by blast
qed

theorem parse_result_dir_grammar_witness:
  "prefix_grammar ''5y_42_site_7'' ''5y'' ''42'' ''site_7''
   \<and> parse_result_dir ''5y_42_site_7'' = Some (''5y'', ''42'', ''site_7'')
   \<and> parse_result_dir ''results'' = None"
  using parse_result_dir_grammar [of "''5y_42_site_7''" "''5y''" "''42''" "''site_7''"]
  by (simp add: parse_result_dir_def prefix_grammar_def is_duration_tag_def
      is_operation_count_def is_digit_def is_unit_letter_def is_dot_def)

text \<open>
  C7: \<open>parse_result_dir\<close> is total. The source function has no raising path
  (\<open>re.match\<close> on a string returns a match or nothing), so the model has no error value:
  for every name the result is none or a triple whose duration is digits and a unit, whose
  operation count is digits and whose gage is not empty.
\<close>

theorem parse_result_dir_total:
  "parse_result_dir name = None
   \<or> (\<exists>d os g. parse_result_dir name = Some (d, os, g)
        \<and> is_duration_tag d \<and> is_operation_count os \<and> g \<noteq> [])"
proof (cases "parse_result_dir name")
  case None
  then show ?thesis by simp
next
  case (Some t)
  then obtain d os g where "parse_result_dir name = Some (d, os, g)"
    by (cases t) auto
  with parse_result_dir_shape [OF this] show ?thesis by blast
qed

theorem parse_result_dir_total_witness:
  "parse_result_dir [] = None
   \<and> parse_result_dir '' 30d_1000_gageA'' = None
   \<and> parse_result_dir ''30d 1000 gageA'' = None
   \<and> parse_result_dir (''30d_1000_'' @ [LF]) = None
   \<and> parse_result_dir ''30d_1000_gage A'' = Some (''30d'', ''1000'', ''gage A'')"
  using parse_result_dir_total [of "''30d_1000_gage A''"]
  by (simp add: parse_result_dir_def is_digit_def is_unit_letter_def is_dot_def)

section \<open>The loader\<close>

lemma and_then_simps [simp]:
  "and_then (Inl e) f = Inl e"
  "and_then (Inr x) f = f x"
  by (simp_all add: and_then_def)

text \<open>The only way to a value: an object whose \<open>results\<close> is a list that starts with an
  object that has a \<open>mean\<close>.\<close>

lemma load_hyperfine_results_cases:
  "load_hyperfine_results root d f =
     (case read_json root d f of
        Inr (JObj items) \<Rightarrow>
          (case map_of items ''results'' of
             Some (JArr (JObj members # rest)) \<Rightarrow>
               (case map_of members ''mean'' of Some v \<Rightarrow> v | None \<Rightarrow> JNull)
           | _ \<Rightarrow> JNull)
      | _ \<Rightarrow> JNull)"
  by (simp add: load_hyperfine_results_def
      split: sum.splits json.splits option.splits list.splits)

lemma load_missing_file:
  "read_json root d f = Inl e \<Longrightarrow> load_hyperfine_results root d f = JNull"
  by (simp add: load_hyperfine_results_def)

lemma load_full_precision:
  "read_json root d f = Inr (hyperfine_file (JNum x)) \<Longrightarrow> load_hyperfine_results root d f = JNum x"
  by (simp add: load_hyperfine_results_def hyperfine_file_def)

lemma load_returns_mean_unchecked:
  "read_json root d f = Inr (hyperfine_file v) \<Longrightarrow> load_hyperfine_results root d f = v"
  by (simp add: load_hyperfine_results_def hyperfine_file_def)

lemma root_of_simps [simp]:
  "root_exists (root_of entries files) = True"
  "listdir (root_of entries files) = Inr entries"
  "is_dir (root_of entries files) d = (d \<in> set entries)"
  "read_json (root_of entries files) d f =
     (case map_of files (d, f) of None \<Rightarrow> Inl OSError | Some doc \<Rightarrow> Inr doc)"
  "write_csv (root_of entries files) = None"
  by (simp_all add: root_of_def)

lemma micros_simps [simp]:
  "is_zero micros x = (x = 0)"
  "of_truth micros b = (if b then 1000000 else 0)"
  "add micros x y = Inr (x + y)"
  "round3 micros x = round_thousand x"
  by (simp_all add: micros_def)

section \<open>Rows\<close>

lemma runtime_cell_number:
  "runtime_cell ar (JNum x) = Inr (if is_zero ar x then NA else Seconds (round3 ar x))"
  by (simp add: runtime_cell_def)

lemma runtime_cell_none: "runtime_cell ar JNull = Inr NA"
  by (simp add: runtime_cell_def)

lemma total_cell_numbers:
  "total_cell ar (JNum a) (JNum b) =
     (if is_zero ar a \<or> is_zero ar b then Inr NA
      else and_then (add ar a b) (\<lambda>s. Inr (Seconds (round3 ar s))))"
  by (cases "add ar a b") (simp_all add: total_cell_def py_add_def)

lemma total_cell_none:
  "total_cell ar JNull t = Inr NA" "total_cell ar t JNull = Inr NA"
  by (simp_all add: total_cell_def)

lemma sum_then_round_differs:
  "and_then (add micros 400 400) (\<lambda>s. Inr (round3 micros s))
   \<noteq> add micros (round3 micros 400) (round3 micros 400)"
  by (simp add: round_thousand_def)

lemma make_row_key: "make_row ar d os g x y = Inr r \<Longrightarrow> sort_key_of r = (int_of_digits os, d)"
  by (auto simp: make_row_def and_then_def sort_key_of_def split: sum.splits)

lemma row_of_dir_key: "row_of_dir ar root d = Some (Inr r) \<Longrightarrow> dir_key root d = Some (sort_key_of r)"
  by (auto simp: row_of_dir_def dir_key_def split: if_splits option.splits dest: make_row_key)

lemma row_of_dir_none: "row_of_dir ar root d = None \<longleftrightarrow> dir_key root d = None"
  by (auto simp: row_of_dir_def dir_key_def split: if_splits option.splits)

section \<open>The loop over the entries\<close>

text \<open>
  The loop raises exactly when the row of some entry does, and otherwise returns the rows
  of the entries in the order of the entries.
\<close>

lemma collect_results_cases:
  "(case collect_results ar root entries of
      Inl e \<Rightarrow> list_ex (raises ar root) entries
    | Inr rows \<Rightarrow> \<not> list_ex (raises ar root) entries \<and> rows = built_rows ar root entries)"
proof (induction entries)
  case Nil
  show ?case by (simp add: built_rows_def)
next
  case (Cons d entries)
  show ?case
  proof (cases "row_of_dir ar root d")
    case None
    with Cons show ?thesis
      by (simp add: raises_def built_rows_def split: sum.splits)
  next
    case (Some res)
    show ?thesis
    proof (cases res)
      case (Inl e)
      with Some show ?thesis by (simp add: raises_def)
    next
      case (Inr r)
      with Some Cons show ?thesis
        by (cases "collect_results ar root entries") (simp_all add: raises_def built_rows_def)
    qed
  qed
qed

lemma collect_results_raises:
  "list_ex (raises ar root) entries \<Longrightarrow> \<exists>e. collect_results ar root entries = Inl e"
  using collect_results_cases [of ar root entries]
  by (cases "collect_results ar root entries") simp_all

lemma collect_results_rows:
  "\<not> list_ex (raises ar root) entries \<Longrightarrow>
     collect_results ar root entries = Inr (built_rows ar root entries)"
  using collect_results_cases [of ar root entries]
  by (cases "collect_results ar root entries") simp_all

lemma built_rows_mset:
  "mset (built_rows ar root entries) =
     (\<Sum>d\<in>#mset entries. mset (case row_of_dir ar root d of Some (Inr r) \<Rightarrow> [r] | _ \<Rightarrow> []))"
  by (induction entries) (simp_all add: built_rows_def)

lemma built_rows_permuted:
  "mset xs = mset ys \<Longrightarrow> mset (built_rows ar root xs) = mset (built_rows ar root ys)"
  by (simp add: built_rows_mset)

lemma built_rows_origin:
  "r \<in> set (built_rows ar root entries) \<Longrightarrow> \<exists>d\<in>set entries. row_of_dir ar root d = Some (Inr r)"
  by (auto simp: built_rows_def split: option.splits sum.splits)

lemma built_rows_empty:
  "built_rows ar root entries = [] \<longleftrightarrow> (\<forall>d\<in>set entries. \<forall>r. row_of_dir ar root d \<noteq> Some (Inr r))"
  by (induction entries) (auto simp: built_rows_def split: option.splits sum.splits)

lemma raises_permuted:
  "mset xs = mset ys \<Longrightarrow> list_ex (raises ar root) xs = list_ex (raises ar root) ys"
  using mset_eq_setD [of xs ys] by (simp add: list_ex_iff)

text \<open>Entries that do not qualify contribute neither a row nor an exception.\<close>

lemma raises_qualifies:
  assumes "raises ar root d"
  shows "dir_key root d \<noteq> None"
proof -
  from assms have "row_of_dir ar root d \<noteq> None"
    by (auto simp: raises_def split: option.splits)
  then show ?thesis
    by (simp add: row_of_dir_none)
qed

lemma raises_qualifying:
  "list_ex (raises ar root) (filter (\<lambda>d. dir_key root d \<noteq> None) entries)
     = list_ex (raises ar root) entries"
  by (simp only: list_ex_iff set_filter mem_Collect_eq) (blast dest: raises_qualifies)

lemma built_rows_qualifying:
  "built_rows ar root (filter (\<lambda>d. dir_key root d \<noteq> None) entries) = built_rows ar root entries"
proof (induction entries)
  case Nil
  show ?case by (simp add: built_rows_def)
next
  case (Cons d entries)
  show ?case
  proof (cases "dir_key root d = None")
    case True
    then have "row_of_dir ar root d = None"
      by (simp add: row_of_dir_none)
    with True Cons show ?thesis
      by (simp add: built_rows_def)
  next
    case False
    with Cons show ?thesis
      by (simp add: built_rows_def)
  qed
qed

text \<open>The rows with a given sort key are the rows of the entries with that key.\<close>

lemma built_rows_with_key:
  "filter (\<lambda>r. sort_key_of r = k) (built_rows ar root entries)
     = built_rows ar root (filter (\<lambda>d. dir_key root d = Some k) entries)"
proof (induction entries)
  case Nil
  show ?case by (simp add: built_rows_def)
next
  case (Cons d entries)
  show ?case
  proof (cases "row_of_dir ar root d")
    case None
    then have "dir_key root d = None"
      by (simp add: row_of_dir_none)
    with None Cons show ?thesis
      by (simp add: built_rows_def)
  next
    case (Some res)
    show ?thesis
    proof (cases res)
      case (Inl e)
      with Some Cons show ?thesis
        by (simp add: built_rows_def)
    next
      case (Inr r)
      with Some have "dir_key root d = Some (sort_key_of r)"
        by (simp add: row_of_dir_key)
      with Some Inr Cons show ?thesis
        by (simp add: built_rows_def)
    qed
  qed
qed

text \<open>The fields of a results root that the loop reads.\<close>

lemma load_hyperfine_results_listdir [simp]:
  "load_hyperfine_results (root\<lparr>listdir := l\<rparr>) d f = load_hyperfine_results root d f"
  by (simp add: load_hyperfine_results_def)

lemma row_of_dir_listdir [simp]:
  "row_of_dir ar (root\<lparr>listdir := l\<rparr>) d = row_of_dir ar root d"
  by (simp add: row_of_dir_def split: option.splits)

lemma dir_key_listdir [simp]: "dir_key (root\<lparr>listdir := l\<rparr>) d = dir_key root d"
  by (simp add: dir_key_def)

lemma raises_listdir [simp]: "raises ar (root\<lparr>listdir := l\<rparr>) = raises ar root"
  by (simp add: raises_def fun_eq_iff)

lemma built_rows_listdir [simp]:
  "built_rows ar (root\<lparr>listdir := l\<rparr>) entries = built_rows ar root entries"
  by (simp add: built_rows_def)

section \<open>The sort\<close>

lemma sort_values_sorted: "sorted (map sort_key_of (sort_values rows))"
  by (simp add: sort_values_def)

lemma sort_values_mset: "mset (sort_values rows) = mset rows"
  by (simp add: sort_values_def)

lemma sort_values_stable:
  "filter (\<lambda>r. sort_key_of r = k) (sort_values rows) = filter (\<lambda>r. sort_key_of r = k) rows"
  by (simp add: sort_values_def sort_key_stable)

lemma sort_values_permuted:
  assumes "mset xs = mset ys" "inj_on sort_key_of (set xs)"
  shows "sort_values xs = sort_values ys"
  unfolding sort_values_def
proof (rule sort_key_inj_key_eq)
  show "mset xs = mset (sort_key sort_key_of ys)"
    using assms(1) by simp
  show "inj_on sort_key_of (set xs)"
    by (rule assms(2))
  show "sorted (map sort_key_of (sort_key sort_key_of ys))"
    by simp
qed

lemma built_rows_inj:
  assumes "\<forall>d1\<in>set entries. \<forall>d2\<in>set entries.
             dir_key root d1 \<noteq> None \<and> dir_key root d1 = dir_key root d2 \<longrightarrow> d1 = d2"
  shows "inj_on sort_key_of (set (built_rows ar root entries))"
proof (rule inj_onI)
  fix r1 r2
  assume r1: "r1 \<in> set (built_rows ar root entries)"
    and r2: "r2 \<in> set (built_rows ar root entries)"
    and k: "sort_key_of r1 = sort_key_of r2"
  from built_rows_origin [OF r1] obtain d1
    where d1: "d1 \<in> set entries" "row_of_dir ar root d1 = Some (Inr r1)" by blast
  from built_rows_origin [OF r2] obtain d2
    where d2: "d2 \<in> set entries" "row_of_dir ar root d2 = Some (Inr r2)" by blast
  have "dir_key root d1 = Some (sort_key_of r1)" "dir_key root d2 = Some (sort_key_of r2)"
    using d1(2) d2(2) by (simp_all add: row_of_dir_key)
  with k have "dir_key root d1 \<noteq> None \<and> dir_key root d1 = dir_key root d2"
    by simp
  with assms d1(1) d2(1) have "d1 = d2" by blast
  with d1(2) d2(2) show "r1 = r2" by simp
qed

section \<open>The program as a whole\<close>

lemma main_missing_root:
  "\<not> root_exists root \<Longrightarrow>
     main rt ar h root =
       Stopped (''Error: Benchmark directory '' @ [CHR 0x27] @ BENCHMARK_DIR h @ [CHR 0x27]
                @ '' does not exist'')"
  by (simp add: main_def)

lemma main_unreadable_root:
  "root_exists root \<Longrightarrow> listdir root = Inl e \<Longrightarrow> main rt ar h root = Crashed e"
  by (simp add: main_def)

lemma main_no_qualifying_directory:
  assumes "root_exists root" "listdir root = Inr entries"
    and "\<forall>d\<in>set entries. dir_key root d = None"
  shows "main rt ar h root = Stopped ''No benchmark results found''"
proof -
  from assms(3) have none: "\<forall>d\<in>set entries. row_of_dir ar root d = None"
    by (simp add: row_of_dir_none)
  then have "\<not> list_ex (raises ar root) entries"
    by (simp add: list_ex_iff raises_def)
  moreover from none have "built_rows ar root entries = []"
    by (simp add: built_rows_empty)
  ultimately show ?thesis
    using assms(1,2) by (simp add: main_def collect_results_rows)
qed

lemma main_rows_raise:
  assumes "root_exists root" "listdir root = Inr entries" "list_ex (raises ar root) entries"
  shows "\<exists>e. main rt ar h root = Crashed e"
  using collect_results_raises [OF assms(3)] assms(1,2) by (auto simp: main_def)

lemma main_reports:
  assumes "root_exists root" "listdir root = Inr entries"
    and "\<exists>d\<in>set entries. dir_key root d \<noteq> None"
    and "\<not> list_ex (raises ar root) entries"
  shows "main rt ar h root =
           (case write_csv root of
              None \<Rightarrow> Reported (get_system_info rt h) (sort_values (built_rows ar root entries))
            | Some e \<Rightarrow>
                ReportedOnly (get_system_info rt h) (sort_values (built_rows ar root entries)) e)"
proof -
  from assms(3) obtain d where d: "d \<in> set entries" "row_of_dir ar root d \<noteq> None"
    by (auto simp: row_of_dir_none)
  from assms(4) d(1) have "\<not> raises ar root d"
    by (auto simp: list_ex_iff)
  with d(2) obtain r where "row_of_dir ar root d = Some (Inr r)"
    by (auto simp: raises_def split: option.splits sum.splits)
  with d(1) have "built_rows ar root entries \<noteq> []"
    by (auto simp: built_rows_empty)
  with assms(1,2,4) show ?thesis
    by (simp add: main_def collect_results_rows)
qed

text \<open>The rows of a report are the sorted rows of the entries.\<close>

lemma main_reported_rows:
  assumes "reported_rows (main rt ar h root) = Some rows"
  shows "\<exists>entries. listdir root = Inr entries \<and> rows = sort_values (built_rows ar root entries)"
proof -
  from assms have ex: "root_exists root"
    by (auto simp: main_def split: if_splits)
  with assms obtain entries where l: "listdir root = Inr entries"
    by (cases "listdir root") (auto simp: main_def)
  have no: "\<not> list_ex (raises ar root) entries"
  proof
    assume "list_ex (raises ar root) entries"
    from main_rows_raise [OF ex l this, of rt h] assms show False
      by auto
  qed
  from assms ex l have "rows = sort_values (built_rows ar root entries)"
    by (simp add: main_def collect_results_rows [OF no] split: if_splits option.splits)
  with l show ?thesis by blast
qed

lemma main_rows_sorted:
  "main rt ar h root = Reported facts rows \<Longrightarrow> sorted (map sort_key_of rows)"
  using main_reported_rows [of rt ar h root rows] by (auto simp: sort_values_sorted)

lemma main_rows_sorted_csv_failed:
  "main rt ar h root = ReportedOnly facts rows e \<Longrightarrow> sorted (map sort_key_of rows)"
  using main_reported_rows [of rt ar h root rows] by (auto simp: sort_values_sorted)

section \<open>Claims on the aggregator\<close>

text \<open>
  C3: the claim counts every loaded value as present, including 0.0. The code tests the
  truth value of a measurement, and the number zero is false: with a primary mean of 0
  and a secondary mean of 1.5 seconds the primary and the total column hold the
  not-available marker, although both measurements loaded. (For measurements that are
  not zero the total is the rounded sum of the unrounded values, see
  \<open>total_cell_numbers\<close>.)
\<close>

theorem total_runtime_zero_measurement:
  "row_of_dir micros
     (root_of [''30d_1000_gageA'']
        [((''30d_1000_gageA'', ''mpirun_benchmark.json''), hyperfine_file (JNum 0)),
         ((''30d_1000_gageA'', ''troute_benchmark.json''), hyperfine_file (JNum 1500000))])
     ''30d_1000_gageA''
   = Some (Inr \<lparr>duration = ''30d'', operations = 1000, gage = ''gageA'',
                 mpi_runtime = NA, troute_runtime = Seconds 1500000, total_runtime = NA\<rparr>)"
  by (simp add: row_of_dir_def parse_result_dir_def is_digit_def is_unit_letter_def is_dot_def
      load_hyperfine_results_def hyperfine_file_def make_row_def runtime_cell_def
      total_cell_def int_of_digits_def digit_value_def round_thousand_def)

text \<open>
  C4: the rows are sorted ascending by the pair of the operation count, as a number, and
  the duration tag, as a string; the sort only reorders them; this holds for the rows
  that \<open>main\<close> reports; and rows with operations 500, 1000, 500 and durations 10d, 5d, 30d
  come out as (500, 10d), (500, 30d), (1000, 5d). The rows of a report are sorted whether
  or not the file could be written after it.
\<close>

theorem sort_values_ascending:
  "sorted (map sort_key_of (sort_values rows))
   \<and> mset (sort_values rows) = mset rows
   \<and> (case main rt ar h root of
         Reported facts reported \<Rightarrow> sorted (map sort_key_of reported)
       | _ \<Rightarrow> True)
   \<and> (case main rt ar h root of
         ReportedOnly facts reported e \<Rightarrow> sorted (map sort_key_of reported)
       | _ \<Rightarrow> True)
   \<and> map sort_key_of
        (sort_values
           [\<lparr>duration = ''10d'', operations = 500, gage = g1,
              mpi_runtime = a1, troute_runtime = b1, total_runtime = c1\<rparr>,
            \<lparr>duration = ''5d'', operations = 1000, gage = g2,
              mpi_runtime = a2, troute_runtime = b2, total_runtime = c2\<rparr>,
            \<lparr>duration = ''30d'', operations = 500, gage = g3,
              mpi_runtime = a3, troute_runtime = b3, total_runtime = c3\<rparr>])
       = [(500, ''10d''), (500, ''30d''), (1000, ''5d'')]"
proof -
  have "case main rt ar h root of
          Reported facts reported \<Rightarrow> sorted (map sort_key_of reported)
        | _ \<Rightarrow> True"
    by (cases "main rt ar h root") (simp_all add: main_rows_sorted)
  moreover have "case main rt ar h root of
          ReportedOnly facts reported e \<Rightarrow> sorted (map sort_key_of reported)
        | _ \<Rightarrow> True"
    by (cases "main rt ar h root") (simp_all add: main_rows_sorted_csv_failed)
  moreover have "map sort_key_of
        (sort_values
           [\<lparr>duration = ''10d'', operations = 500, gage = g1,
              mpi_runtime = a1, troute_runtime = b1, total_runtime = c1\<rparr>,
            \<lparr>duration = ''5d'', operations = 1000, gage = g2,
              mpi_runtime = a2, troute_runtime = b2, total_runtime = c2\<rparr>,
            \<lparr>duration = ''30d'', operations = 500, gage = g3,
              mpi_runtime = a3, troute_runtime = b3, total_runtime = c3\<rparr>])
       = [(500, ''10d''), (500, ''30d''), (1000, ''5d'')]"
    by (simp add: sort_values_def sort_key_of_def less_eq_prod_def less_prod_def)
  ultimately show ?thesis
    by (simp add: sort_values_sorted sort_values_mset)
qed

theorem sort_values_ascending_witness:
  "(case main sample_runtime micros bare_host
           (root_of [''10d_500_a'', ''5d_1000_b'', ''30d_500_c''] []) of
      Reported facts reported \<Rightarrow>
        map (\<lambda>r. (operations r, duration r, gage r)) reported
          = [(500, ''10d'', ''a''), (500, ''30d'', ''c''), (1000, ''5d'', ''b'')]
        \<and> sorted (map sort_key_of reported)
    | _ \<Rightarrow> False)"
  using sort_values_ascending
    [of "[]" sample_runtime micros bare_host
      "root_of [''10d_500_a'', ''5d_1000_b'', ''30d_500_c''] []"]
  by (simp add: main_def row_of_dir_def parse_result_dir_def is_digit_def is_unit_letter_def
      is_dot_def load_hyperfine_results_def make_row_def runtime_cell_def total_cell_def
      int_of_digits_def digit_value_def sort_values_def sort_key_of_def
      less_eq_prod_def less_prod_def)

text \<open>
  C5, as stated: the order of the output rows does not depend on the order in which the
  directories were enumerated, also when two records share the sort key and differ in
  gage. It does: the sort compares the two key columns only and is stable, so two such
  records stay in the order of enumeration.
\<close>

theorem row_order_enumeration_counterexample:
  "main sample_runtime micros bare_host (root_of [''1d_5_a'', ''1d_5_b''] [])
   \<noteq> main sample_runtime micros bare_host
       ((root_of [''1d_5_a'', ''1d_5_b''] []) \<lparr>listdir := Inr [''1d_5_b'', ''1d_5_a'']\<rparr>)"
  by (simp add: main_def row_of_dir_def parse_result_dir_def is_digit_def is_unit_letter_def
      is_dot_def load_hyperfine_results_def make_row_def runtime_cell_def total_cell_def
      int_of_digits_def digit_value_def sort_values_def sort_key_of_def
      less_eq_prod_def less_prod_def root_of_def)

text \<open>
  C5, amended, in two parts. First: take two runs over the same results root that differ
  in the enumeration only, such that the qualifying directories of the two enumerations
  are the same up to their order (the entries that do not qualify may differ), and such
  that no two qualifying directories share the sort key (operation count, duration tag).
  Then both runs end in an exception (the row of some directory cannot be built), or they
  end the same way: the same message, or the same rows in the same order. Second, for
  every run that prints a report, with or without shared keys: the rows with a given sort
  key are the rows of the directories with that key, in the order in which these
  directories were enumerated.
\<close>

theorem row_order_deterministic:
  "(mset (filter (\<lambda>d. dir_key root d \<noteq> None) entries2)
      = mset (filter (\<lambda>d. dir_key root d \<noteq> None) entries1)
    \<and> (\<forall>d1\<in>set entries1. \<forall>d2\<in>set entries1.
          dir_key root d1 \<noteq> None \<and> dir_key root d1 = dir_key root d2 \<longrightarrow> d1 = d2)
    \<longrightarrow> (\<exists>e. main rt ar h (root\<lparr>listdir := Inr entries1\<rparr>) = Crashed e)
          \<and> (\<exists>e. main rt ar h (root\<lparr>listdir := Inr entries2\<rparr>) = Crashed e)
        \<or> main rt ar h (root\<lparr>listdir := Inr entries2\<rparr>)
          = main rt ar h (root\<lparr>listdir := Inr entries1\<rparr>))
   \<and> (reported_rows (main rt ar h (root\<lparr>listdir := Inr entries\<rparr>)) = Some rows
    \<longrightarrow> filter (\<lambda>r. sort_key_of r = k) rows
          = built_rows ar root (filter (\<lambda>d. dir_key root d = Some k) entries))"
proof (intro conjI impI)
  assume hyps: "mset (filter (\<lambda>d. dir_key root d \<noteq> None) entries2)
      = mset (filter (\<lambda>d. dir_key root d \<noteq> None) entries1)
    \<and> (\<forall>d1\<in>set entries1. \<forall>d2\<in>set entries1.
          dir_key root d1 \<noteq> None \<and> dir_key root d1 = dir_key root d2 \<longrightarrow> d1 = d2)"
  let ?q = "\<lambda>d. dir_key root d \<noteq> None"
  let ?run1 = "main rt ar h (root\<lparr>listdir := Inr entries1\<rparr>)"
  let ?run2 = "main rt ar h (root\<lparr>listdir := Inr entries2\<rparr>)"
  from hyps have same: "mset (filter ?q entries2) = mset (filter ?q entries1)"
    and keys: "\<forall>d1\<in>set entries1. \<forall>d2\<in>set entries1.
          dir_key root d1 \<noteq> None \<and> dir_key root d1 = dir_key root d2 \<longrightarrow> d1 = d2"
    by blast+
  have "list_ex (raises ar root) (filter ?q entries2)
          = list_ex (raises ar root) (filter ?q entries1)"
    using same by (rule raises_permuted)
  then have ex: "list_ex (raises ar root) entries2 = list_ex (raises ar root) entries1"
    by (simp only: raises_qualifying)
  have "mset (built_rows ar root (filter ?q entries2))
          = mset (built_rows ar root (filter ?q entries1))"
    using same by (rule built_rows_permuted)
  then have perm: "mset (built_rows ar root entries2) = mset (built_rows ar root entries1)"
    by (simp only: built_rows_qualifying)
  show "(\<exists>e. ?run1 = Crashed e) \<and> (\<exists>e. ?run2 = Crashed e) \<or> ?run2 = ?run1"
  proof (cases "root_exists root")
    case False
    then show ?thesis by (simp add: main_def)
  next
    case exists: True
    show ?thesis
    proof (cases "list_ex (raises ar root) entries1")
      case True
      have "\<exists>e. ?run1 = Crashed e"
        by (rule main_rows_raise [of _ entries1]) (simp_all add: exists True)
      moreover have "\<exists>e. ?run2 = Crashed e"
        by (rule main_rows_raise [of _ entries2]) (simp_all add: exists True ex)
      ultimately show ?thesis by blast
    next
      case False
      have "inj_on sort_key_of (set (built_rows ar root entries1))"
        using keys by (rule built_rows_inj)
      moreover have "set (built_rows ar root entries2) = set (built_rows ar root entries1)"
        using perm by (rule mset_eq_setD)
      ultimately have "inj_on sort_key_of (set (built_rows ar root entries2))"
        by simp
      with perm have sorted_eq:
        "sort_values (built_rows ar root entries2) = sort_values (built_rows ar root entries1)"
        by (rule sort_values_permuted)
      have empty_eq: "built_rows ar root entries2 = [] \<longleftrightarrow> built_rows ar root entries1 = []"
        using perm by (metis mset_zero_iff)
      have "?run2 = ?run1"
        using False ex
        by (simp add: main_def collect_results_rows sorted_eq empty_eq split: option.splits)
      then show ?thesis ..
    qed
  qed
next
  assume "reported_rows (main rt ar h (root\<lparr>listdir := Inr entries\<rparr>)) = Some rows"
  from main_reported_rows [OF this]
  have "rows = sort_values (built_rows ar root entries)"
    by simp
  then show "filter (\<lambda>r. sort_key_of r = k) rows
          = built_rows ar root (filter (\<lambda>d. dir_key root d = Some k) entries)"
    by (simp add: sort_values_stable built_rows_with_key)
qed

text \<open>
  Two enumerations with the same two qualifying directories, in another order and among
  other entries, end in the same report; and of two directories that share the key
  (5, 1d), the one enumerated first comes first.
\<close>

theorem row_order_deterministic_witness:
  "main sample_runtime micros bare_host
     ((root_of [''1d_5_a'', ''notes'', ''1d_7_b''] [])
        \<lparr>listdir := Inr [''1d_7_b'', ''1d_5_a'', ''readme'']\<rparr>)
   = main sample_runtime micros bare_host
       ((root_of [''1d_5_a'', ''notes'', ''1d_7_b''] [])
          \<lparr>listdir := Inr [''1d_5_a'', ''notes'', ''1d_7_b'']\<rparr>)
   \<and> (\<exists>rows. reported_rows (main sample_runtime micros bare_host
                   ((root_of [''1d_5_a'', ''notes'', ''1d_7_b''] [])
                      \<lparr>listdir := Inr [''1d_7_b'', ''1d_5_a'', ''readme'']\<rparr>)) = Some rows
          \<and> map gage rows = [''a'', ''b''])
   \<and> (\<exists>rows. reported_rows (main sample_runtime micros bare_host
                   ((root_of [''1d_5_a'', ''1d_5_b''] [])
                      \<lparr>listdir := Inr [''1d_5_b'', ''1d_5_a'']\<rparr>)) = Some rows
          \<and> map gage (filter (\<lambda>r. sort_key_of r = (5, ''1d'')) rows) = [''b'', ''a''])"
proof -
  let ?root = "root_of [''1d_5_a'', ''notes'', ''1d_7_b''] [] :: int results_root"
  let ?l1 = "[''1d_5_a'', ''notes'', ''1d_7_b'']"
  let ?l2 = "[''1d_7_b'', ''1d_5_a'', ''readme'']"
  let ?tied = "root_of [''1d_5_a'', ''1d_5_b''] [] :: int results_root"
  let ?lt = "[''1d_5_b'', ''1d_5_a'']"
  let ?a5 = "\<lparr>duration = ''1d'', operations = 5, gage = ''a'', mpi_runtime = NA,
             troute_runtime = NA, total_runtime = (NA :: int cell)\<rparr>"
  let ?b7 = "\<lparr>duration = ''1d'', operations = 7, gage = ''b'', mpi_runtime = NA,
             troute_runtime = NA, total_runtime = (NA :: int cell)\<rparr>"
  let ?b5 = "\<lparr>duration = ''1d'', operations = 5, gage = ''b'', mpi_runtime = NA,
             troute_runtime = NA, total_runtime = (NA :: int cell)\<rparr>"
  note eval = dir_key_def row_of_dir_def parse_result_dir_def is_digit_def is_unit_letter_def
    is_dot_def int_of_digits_def digit_value_def load_hyperfine_results_def make_row_def
    runtime_cell_def total_cell_def
  have same: "mset (filter (\<lambda>d. dir_key ?root d \<noteq> None) ?l2)
      = mset (filter (\<lambda>d. dir_key ?root d \<noteq> None) ?l1)"
    by (simp add: eval)
  have keys: "\<forall>d1\<in>set ?l1. \<forall>d2\<in>set ?l1.
      dir_key ?root d1 \<noteq> None \<and> dir_key ?root d1 = dir_key ?root d2 \<longrightarrow> d1 = d2"
    by (simp add: eval)
  have run1: "main sample_runtime micros bare_host (?root\<lparr>listdir := Inr ?l1\<rparr>)
      = Reported (get_system_info sample_runtime bare_host) [?a5, ?b7]"
    by (simp add: main_def eval sort_values_def sort_key_of_def less_eq_prod_def less_prod_def
        root_of_def)
  have tied: "main sample_runtime micros bare_host (?tied\<lparr>listdir := Inr ?lt\<rparr>)
      = Reported (get_system_info sample_runtime bare_host) [?b5, ?a5]"
    by (simp add: main_def eval sort_values_def sort_key_of_def less_eq_prod_def less_prod_def
        root_of_def)
  have built: "built_rows micros ?tied (filter (\<lambda>d. dir_key ?tied d = Some (5, ''1d'')) ?lt)
      = [?b5, ?a5]"
    by (simp add: built_rows_def eval)
  have "(\<exists>e. main sample_runtime micros bare_host (?root\<lparr>listdir := Inr ?l1\<rparr>) = Crashed e)
          \<and> (\<exists>e. main sample_runtime micros bare_host (?root\<lparr>listdir := Inr ?l2\<rparr>) = Crashed e)
        \<or> main sample_runtime micros bare_host (?root\<lparr>listdir := Inr ?l2\<rparr>)
          = main sample_runtime micros bare_host (?root\<lparr>listdir := Inr ?l1\<rparr>)"
    using row_order_deterministic
      [of ?root ?l2 ?l1 sample_runtime micros bare_host ?l2 "[?a5, ?b7]" "(5, ''1d'')"]
      same keys
    by blast
  then have first: "main sample_runtime micros bare_host (?root\<lparr>listdir := Inr ?l2\<rparr>)
      = main sample_runtime micros bare_host (?root\<lparr>listdir := Inr ?l1\<rparr>)"
    by (simp add: run1)
  have "reported_rows (main sample_runtime micros bare_host (?tied\<lparr>listdir := Inr ?lt\<rparr>))
      = Some [?b5, ?a5]"
    by (simp add: tied)
  then have "filter (\<lambda>r. sort_key_of r = (5, ''1d'')) [?b5, ?a5]
      = built_rows micros ?tied (filter (\<lambda>d. dir_key ?tied d = Some (5, ''1d'')) ?lt)"
    using row_order_deterministic
      [of ?tied ?lt ?lt sample_runtime micros bare_host ?lt "[?b5, ?a5]" "(5, ''1d'')"]
    by blast
  then have second: "map gage (filter (\<lambda>r. sort_key_of r = (5, ''1d'')) [?b5, ?a5]) = [''b'', ''a'']"
    by (simp only: built) simp
  show ?thesis
    using second by (simp add: first run1 tied)
qed

text \<open>
  C8: on a wrong type the claim promises the no-data outcome. The loader does not look
  at the type of the mean: a file \<^verbatim>\<open>{"results": [{"mean": "abc"}]}\<close> loads as the string
  \<open>abc\<close>, not as no data (and \<open>main\<close> then fails to round it). On a missing file, on
  malformed JSON, on a missing field and on a wrong type above the mean it returns no
  data, and a number it returns as it is (\<open>load_hyperfine_results_cases\<close>,
  \<open>load_full_precision\<close>).
\<close>

theorem load_wrong_type_mean:
  "load_hyperfine_results
     (root_of [''30d_1000_gageA'']
        [((''30d_1000_gageA'', ''mpirun_benchmark.json''), hyperfine_file (JStr ''abc''))])
     ''30d_1000_gageA'' ''mpirun_benchmark.json'' = (JStr ''abc'' :: int json)
   \<and> collect_results micros
       (root_of [''30d_1000_gageA'']
          [((''30d_1000_gageA'', ''mpirun_benchmark.json''), hyperfine_file (JStr ''abc''))])
       [''30d_1000_gageA''] = Inl TypeError"
  by (simp add: row_of_dir_def parse_result_dir_def is_digit_def is_unit_letter_def is_dot_def
      load_hyperfine_results_def hyperfine_file_def make_row_def runtime_cell_def)

text \<open>
  C10: with a results root that exists and holds a qualifying directory the claim promises
  the report and the CSV file. When a measurement file of that directory holds a mean that
  is not a number, \<open>main\<close> ends with a \<open>TypeError\<close> and produces neither. (A missing root
  and a root without qualifying directory end with a message, and a run over a root that
  can be listed, whose rows can be built, prints the report: \<open>main_missing_root\<close>,
  \<open>main_no_qualifying_directory\<close>, \<open>main_reports\<close>.)
\<close>

theorem main_crashes_on_wrong_type_mean:
  "main sample_runtime micros bare_host
     (root_of [''30d_1000_gageA'']
        [((''30d_1000_gageA'', ''mpirun_benchmark.json''), hyperfine_file (JStr ''abc''))])
   = Crashed TypeError"
  by (simp add: main_def row_of_dir_def parse_result_dir_def is_digit_def is_unit_letter_def
      is_dot_def load_hyperfine_results_def hyperfine_file_def make_row_def runtime_cell_def)

section \<open>The fact table\<close>

lemma map_of_put: "map_of (put k v info) = (map_of info)(k \<mapsto> v)"
  by (induction info) (auto simp: fun_eq_iff)

lemma has_key_map_of: "has_key k info \<longleftrightarrow> map_of info k \<noteq> None"
  by (simp add: has_key_def map_of_eq_None_iff)

lemma put_other: "k \<noteq> k' \<Longrightarrow> map_of (put k' v info) k = map_of info k"
  by (simp add: map_of_put)

lemma assign_other:
  "assign k' r info = (info', fl) \<Longrightarrow> k \<noteq> k' \<Longrightarrow> map_of info' k = map_of info k"
  by (auto simp: assign_def map_of_put split: sum.splits)

lemma for_each_invariant:
  assumes "\<And>x s s' fl. body x s = (s', fl) \<Longrightarrow> P s \<Longrightarrow> P s'" and "P s"
  shows "P (fst (for_each body xs s))"
  using assms(2)
proof (induction xs arbitrary: s)
  case Nil
  then show ?case by simp
next
  case (Cons x xs)
  obtain s' fl where b: "body x s = (s', fl)"
    by (cases "body x s") auto
  with assms(1) Cons.prems have "P s'" by blast
  with b Cons.IH [of s'] show ?case
    by (cases fl) auto
qed

section \<open>What each probe leaves alone\<close>

lemma lscpu_line_other:
  assumes "lscpu_line rt line info = (info', fl)" "k \<notin> cpu_keys"
  shows "map_of info' k = map_of info k"
proof -
  from assms(2) have "k \<noteq> ''CPU Model''" "k \<noteq> ''CPU Clock''" "k \<noteq> ''L1d Cache''"
    "k \<noteq> ''L1i Cache''" "k \<noteq> ''L2 Cache''" "k \<noteq> ''L3 Cache''"
    by (auto simp: cpu_keys_def)
  with assms(1) show ?thesis
    unfolding lscpu_line_def by (auto split: if_splits dest: assign_other)
qed

lemma cpu_info_other:
  assumes "k \<notin> cpu_keys"
  shows "map_of (cpu_info rt h info) k = map_of info k"
proof -
  from assms have model: "k \<noteq> ''CPU Model''"
    by (auto simp: cpu_keys_def)
  have loop: "map_of (fst (for_each (lscpu_line rt) ls info)) k = map_of info k" for ls
    by (rule for_each_invariant [where P = "\<lambda>s. map_of s k = map_of info k"])
      (auto dest: lscpu_line_other [OF _ assms])
  show ?thesis
  proof (cases "lscpu h")
    case (Inl e)
    with model show ?thesis by (simp add: cpu_info_def put_other)
  next
    case (Inr out)
    obtain info' r where r: "for_each (lscpu_line rt) (split_on LF out) info = (info', r)"
      by (cases "for_each (lscpu_line rt) (split_on LF out) info") auto
    with loop [of "split_on LF out"] have "map_of info' k = map_of info k" by simp
    with Inr r model show ?thesis
      by (cases r) (simp_all add: cpu_info_def put_other)
  qed
qed

lemma memory_summary_other:
  assumes "k \<notin> memory_keys"
  shows "map_of (memory_summary rt st info) k = map_of info k"
proof -
  from assms have "k \<noteq> ''Memory Type''" "k \<noteq> ''Memory Speed''" "k \<noteq> ''Memory Config''"
    by (auto simp: memory_keys_def)
  then show ?thesis
    by (cases st) (simp add: memory_summary_def Let_def put_other)
qed

lemma memory_details_other:
  "k \<notin> memory_keys \<Longrightarrow> map_of (memory_details rt h info) k = map_of info k"
  by (auto simp: memory_details_def memory_summary_other split: sum.splits option.splits prod.splits)

lemma memory_details_skipped:
  "in_docker h \<or> isl (dmidecode h) \<Longrightarrow> memory_details rt h info = info"
  by (auto simp: memory_details_def isl_def)

lemma nvme_line_other:
  assumes "nvme_line b line info = (info', fl)" "k \<notin> drive_keys"
  shows "map_of info' k = map_of info k"
proof -
  from assms(2) have "k \<noteq> ''Drive Model''" "k \<noteq> ''Drive Type''" "k \<noteq> ''Drive Interface''"
    "k \<noteq> ''Drive Capacity''"
    by (auto simp: drive_keys_def)
  with assms(1) show ?thesis
    unfolding nvme_line_def by (auto simp: Let_def put_other split: if_splits sum.splits)
qed

lemma nvme_probe_other:
  assumes "k \<notin> drive_keys"
  shows "map_of (nvme_probe h b info) k = map_of info k"
proof (cases "nvme_list h")
  case (Inl e)
  then show ?thesis by (simp add: nvme_probe_def)
next
  case (Inr out)
  have "map_of (fst (for_each (nvme_line b) (split_on LF (strip out)) info)) k = map_of info k"
    by (rule for_each_invariant [where P = "\<lambda>s. map_of s k = map_of info k"])
      (auto dest: nvme_line_other [OF _ assms])
  with Inr show ?thesis by (simp add: nvme_probe_def)
qed

lemma smartctl_line_other:
  assumes "smartctl_line line info = (info', fl)" "k \<notin> drive_keys"
  shows "map_of info' k = map_of info k"
proof -
  from assms(2) have "k \<noteq> ''Drive Model''" "k \<noteq> ''Drive Type''"
    by (auto simp: drive_keys_def)
  with assms(1) show ?thesis
    unfolding smartctl_line_def by (auto simp: put_other split: if_splits dest: assign_other)
qed

lemma smartctl_probe_other:
  assumes "k \<notin> drive_keys"
  shows "map_of (smartctl_probe h b info) k = map_of info k"
proof (cases "smartctl h b")
  case (Inl e)
  then show ?thesis by (simp add: smartctl_probe_def)
next
  case (Inr out)
  have "map_of (fst (for_each smartctl_line (split_on LF out) info)) k = map_of info k"
    by (rule for_each_invariant [where P = "\<lambda>s. map_of s k = map_of info k"])
      (auto dest: smartctl_line_other [OF _ assms])
  with Inr show ?thesis by (simp add: smartctl_probe_def)
qed

lemma lshw_assign_other:
  assumes "lshw_assign line info = (info', fl)" "k \<notin> drive_keys"
  shows "map_of info' k = map_of info k"
proof -
  from assms(2) have "k \<noteq> ''Drive Model''" "k \<noteq> ''Drive Vendor''" "k \<noteq> ''Drive Size''"
    by (auto simp: drive_keys_def)
  with assms(1) show ?thesis
    unfolding lshw_assign_def by (auto split: if_splits dest: assign_other)
qed

lemma lshw_line_other:
  assumes "lshw_line b line (info, f) = ((info', f'), fl)" "k \<notin> drive_keys"
  shows "map_of info' k = map_of info k"
proof -
  obtain i2 fl2 where a: "lshw_assign line info = (i2, fl2)"
    by (cases "lshw_assign line info") auto
  with assms(1) have "info' = i2"
    by (cases fl2) (auto simp: lshw_line_def split: if_splits)
  with lshw_assign_other [OF a assms(2)] show ?thesis by simp
qed

lemma lshw_probe_other:
  assumes "k \<notin> drive_keys"
  shows "map_of (lshw_probe h b info) k = map_of info k"
proof (cases "lshw h")
  case (Inl e)
  then show ?thesis by (simp add: lshw_probe_def)
next
  case (Inr out)
  have "(\<lambda>s. map_of (fst s) k = map_of info k)
          (fst (for_each (lshw_line b) (split_on LF out) (info, False)))"
  proof (rule for_each_invariant)
    fix x s s' fl
    assume "lshw_line b x s = (s', fl)" "map_of (fst s) k = map_of info k"
    then show "map_of (fst s') k = map_of info k"
      using lshw_line_other [of b x "fst s" "snd s" "fst s'" "snd s'" fl k] assms by simp
  qed simp
  with Inr show ?thesis by (simp add: lshw_probe_def)
qed

lemma lsblk_facts_other:
  assumes "k \<notin> drive_keys"
  shows "map_of (lsblk_facts parts info) k = map_of info k"
proof -
  from assms have "k \<noteq> ''Drive Model''" "k \<noteq> ''Drive Type''" "k \<noteq> ''Drive Capacity''"
    by (auto simp: drive_keys_def)
  then show ?thesis
    by (simp add: lsblk_facts_def Let_def put_other)
qed

lemma lsblk_probe_other:
  "k \<notin> drive_keys \<Longrightarrow> map_of (lsblk_probe h b info) k = map_of info k"
  by (auto simp: lsblk_probe_def lsblk_facts_other split: sum.splits)

lemma lsblk_probe_keeps_model:
  "has_key ''Drive Model'' info \<Longrightarrow> lsblk_probe h b info = info"
  by (simp add: lsblk_probe_def)

lemma drive_probes_other:
  "k \<notin> drive_keys \<Longrightarrow> map_of (drive_probes h device info) k = map_of info k"
  by (simp add: drive_probes_def Let_def lsblk_probe_other lshw_probe_other
      smartctl_probe_other nvme_probe_other)

lemma docker_info_other:
  assumes "k \<notin> docker_keys"
  shows "map_of (docker_info h info) k = map_of info k"
proof -
  from assms have "k \<noteq> ''Docker''" "k \<noteq> ''Environment''" "k \<noteq> ''Container Hostname''"
    by (auto simp: docker_keys_def)
  then show ?thesis
    by (auto simp: docker_info_def Let_def put_other split: sum.splits)
qed

text \<open>The two checks that the drive chain does make.\<close>

lemma fallbacks_respect_nvme_model:
  assumes "contains ''/dev/'' device" "contains ''nvme'' (base_device_of device)"
    and "has_key ''Drive Model'' (nvme_probe h (base_device_of device) info)"
  shows "drive_probes h device info = nvme_probe h (base_device_of device) info"
  using assms by (simp add: drive_probes_def Let_def lsblk_probe_def)

lemma lsblk_respects_earlier_model:
  assumes "contains ''/dev/'' device" "has_key ''Drive Model'' info" "in_docker h"
    and "\<not> contains ''nvme'' (base_device_of device)"
  shows "drive_probes h device info = info"
  using assms by (simp add: drive_probes_def Let_def lsblk_probe_def)

text \<open>Any exception in the loop over the lines of \<open>lscpu\<close> ends in the handler.\<close>

lemma cpu_info_handler:
  assumes "lscpu h = Inr out"
    and "snd (for_each (lscpu_line rt) (split_on LF out) info) = Some e"
  shows "map_of (cpu_info rt h info) ''CPU Model'' = Some (processor_or_unknown h)"
  using assms by (cases "for_each (lscpu_line rt) (split_on LF out) info") (simp add: cpu_info_def map_of_put)

section \<open>Evaluating the samples\<close>

lemmas text_defs = is_space_def strip_def split_on_def split_ws_def py_nth_def py_last_def
  value_after_colon_def second_field_def before_end_def sub_trailing_digits_def
  sub_trailing_p_def sub_trailing_n_digits_def skip_column_def sub_three_columns_def
  split_wide_def is_amount_char_def match_capacity_def findall_capacity_def is_digit_def

lemmas probe_defs = has_key_def assign_def cpu_clock_def lscpu_line_def processor_or_unknown_def
  cpu_info_def dmidecode_line_def one_or_all_def memory_summary_def memory_details_def
  mount_lookup_def base_device_of_def device_name_def nvme_line_def nvme_probe_def
  smartctl_line_def smartctl_probe_def lshw_assign_def lshw_line_def lshw_probe_def
  lsblk_facts_def lsblk_probe_def drive_probes_def drive_info_def docker_info_def
  get_system_info_def

lemma base_device_examples:
  "base_device_of ''/dev/sda1'' = ''/dev/sda''"
  "base_device_of ''/dev/nvme0n1p2'' = ''/dev/nvme0''"
  by (simp_all add: text_defs base_device_of_def)

section \<open>Claims on the fingerprinter\<close>

text \<open>
  C1: in the drive chain a probe of lower priority must not replace a drive model that a
  probe of higher priority has set. The hardware lister has no such check, unlike the
  block-device lister after it: on a host where \<open>smartctl\<close> reports the model of
  \<open>/dev/sda\<close> and \<open>lshw\<close> lists another disk, \<open>smartctl\<close> alone yields the model
  \<open>Samsung SSD 860\<close>, and the table ends with the model that \<open>lshw\<close> printed.
\<close>

theorem lshw_overwrites_smartctl_model:
  "smartctl_probe host_two_models ''/dev/sda'' [] = [(''Drive Model'', Text ''Samsung SSD 860'')]
   \<and> map_of (get_system_info sample_runtime host_two_models) ''Drive Model''
       = Some (Text ''WDC WD10EZEX'')"
  by (simp add: text_defs probe_defs host_two_models_def host_sda_def bare_host_def
      sample_runtime_def df_sda1_def df_T_sda1_def)

text \<open>
  C2: a clock that does not parse as a number must cost the clock only. The conversion raises inside
  the \<open>try\<close> block that surrounds the whole loop: the lines after it are not read, and the
  handler replaces the model that was parsed by the name from the operating system, here
  \<open>Unknown\<close>. With a numeric clock the same output yields model, clock and cache.
\<close>

theorem lscpu_bad_clock_loses_model:
  "cpu_info sample_runtime host_bad_clock [] = [(''CPU Model'', Text ''Unknown'')]
   \<and> cpu_info sample_runtime host_good_clock []
       = [(''CPU Model'', Text ''Xeon E5''), (''CPU Clock'', Text ''2400 MHz''),
          (''L2 Cache'', Text ''1 MiB'')]"
  by (simp add: text_defs probe_defs host_bad_clock_def host_good_clock_def bare_host_def
      sample_runtime_def)

text \<open>
  C9, as stated: the sentinel \<open>Drive\<close> = \<open>Unknown\<close> is present whenever no drive model, type
  or capacity could be determined, and a domain whose probes all fail leaves no
  placeholder. On a host where \<open>df\<close> and \<open>df -T\<close> answer and every drive tool is missing,
  the table has no drive fact and no sentinel either; and its CPU model is the placeholder
  \<open>Unknown\<close>.
\<close>

theorem drive_sentinel_counterexample:
  "\<not> has_key ''Drive Model'' (get_system_info sample_runtime host_sda)
   \<and> \<not> has_key ''Drive Type'' (get_system_info sample_runtime host_sda)
   \<and> \<not> has_key ''Drive Capacity'' (get_system_info sample_runtime host_sda)
   \<and> \<not> has_key ''Drive'' (get_system_info sample_runtime host_sda)
   \<and> map_of (get_system_info sample_runtime host_sda) ''CPU Model'' = Some (Text ''Unknown'')"
  by (simp add: text_defs probe_defs host_sda_def bare_host_def sample_runtime_def
      df_sda1_def df_T_sda1_def)

text \<open>
  C9, amended: the table contains the sentinel \<open>Drive\<close> = \<open>Unknown\<close> exactly when the lookup
  of the device and the file system of the benchmark root (\<open>df\<close>, then \<open>df -T\<close>) fails;
  whenever the sentinel is present, no drive model, type or capacity is; when the lookup
  succeeds the sentinel is absent, whether or not a drive probe found anything. Memory
  details that cannot be probed (inside a container, or \<open>dmidecode\<close> failing) contribute
  no key; the CPU and the container domain do leave a placeholder: when \<open>lscpu\<close> fails the
  CPU model is the name from the operating system or \<open>Unknown\<close>, and when
  \<open>docker --version\<close> fails \<open>Docker\<close> is \<open>Not detected\<close>.
\<close>

theorem drive_sentinel:
  "(has_key ''Drive'' (get_system_info rt h) \<longleftrightarrow> isl (mount_lookup h))
   \<and> (has_key ''Drive'' (get_system_info rt h) \<longrightarrow>
        map_of (get_system_info rt h) ''Drive'' = Some (Text ''Unknown'')
        \<and> \<not> has_key ''Drive Model'' (get_system_info rt h)
        \<and> \<not> has_key ''Drive Type'' (get_system_info rt h)
        \<and> \<not> has_key ''Drive Capacity'' (get_system_info rt h))
   \<and> (in_docker h \<or> isl (dmidecode h) \<longrightarrow>
        \<not> has_key ''Memory Type'' (get_system_info rt h)
        \<and> \<not> has_key ''Memory Speed'' (get_system_info rt h)
        \<and> \<not> has_key ''Memory Config'' (get_system_info rt h))
   \<and> (isl (lscpu h) \<longrightarrow>
        map_of (get_system_info rt h) ''CPU Model'' = Some (processor_or_unknown h))
   \<and> (isl (docker_version h) \<longrightarrow>
        map_of (get_system_info rt h) ''Docker'' = Some (Text ''Not detected''))"
proof -
  define info4 where
    "info4 = put ''Memory Total'' (Text (gib_1f rt (memory_total h) @ '' GB''))
               (put ''CPU Threads'' (Count (cpu_count_logical h))
                 (put ''CPU Cores'' (Count (cpu_count_physical h)) (cpu_info rt h [])))"
  define info6 where
    "info6 = put ''OS'' (Text (system_name h @ '' '' @ release h)) (memory_details rt h info4)"
  have whole: "get_system_info rt h = docker_info h (drive_info h info6)"
    by (simp add: get_system_info_def Let_def info6_def info4_def)
  have before4: "map_of info4 k = None"
    if "k \<notin> cpu_keys" "k \<noteq> ''CPU Cores''" "k \<noteq> ''CPU Threads''" "k \<noteq> ''Memory Total''" for k
    using that by (simp add: info4_def put_other cpu_info_other)
  have before6: "map_of info6 k = None"
    if "k \<notin> cpu_keys" "k \<notin> memory_keys" "k \<noteq> ''CPU Cores''" "k \<noteq> ''CPU Threads''"
      "k \<noteq> ''Memory Total''" "k \<noteq> ''OS''" for k
    using that by (simp add: info6_def put_other memory_details_other before4)
  have outside: "''Drive'' \<notin> cpu_keys" "''Drive'' \<notin> memory_keys" "''Drive'' \<notin> drive_keys"
    "''Drive'' \<notin> docker_keys"
    "''Drive Model'' \<notin> cpu_keys" "''Drive Model'' \<notin> memory_keys" "''Drive Model'' \<notin> docker_keys"
    "''Drive Type'' \<notin> cpu_keys" "''Drive Type'' \<notin> memory_keys" "''Drive Type'' \<notin> docker_keys"
    "''Drive Capacity'' \<notin> cpu_keys" "''Drive Capacity'' \<notin> memory_keys"
    "''Drive Capacity'' \<notin> docker_keys"
    by (simp_all add: cpu_keys_def memory_keys_def drive_keys_def docker_keys_def)
  have sentinel_on_failure:
    "map_of (get_system_info rt h) ''Drive'' = Some (Text ''Unknown'')
     \<and> map_of (get_system_info rt h) ''Drive Model'' = None
     \<and> map_of (get_system_info rt h) ''Drive Type'' = None
     \<and> map_of (get_system_info rt h) ''Drive Capacity'' = None"
    if "isl (mount_lookup h)"
  proof -
    from that obtain e where "mount_lookup h = Inl e"
      by (auto simp: isl_def)
    then have d: "drive_info h info6 = put ''Drive'' (Text ''Unknown'') info6"
      by (simp add: drive_info_def)
    show ?thesis
      unfolding whole d
      by (simp add: docker_info_other outside map_of_put before6)
  qed
  have no_sentinel: "map_of (get_system_info rt h) ''Drive'' = None" if "\<not> isl (mount_lookup h)"
  proof -
    from that obtain device fs where "mount_lookup h = Inr (device, fs)"
      by (cases "mount_lookup h") auto
    then have d: "drive_info h info6 = drive_probes h device (put ''Filesystem'' (Text fs) info6)"
      by (simp add: drive_info_def)
    show ?thesis
      unfolding whole d
      by (simp add: docker_info_other drive_probes_other outside put_other before6)
  qed
  have part1: "has_key ''Drive'' (get_system_info rt h) \<longleftrightarrow> isl (mount_lookup h)"
  proof (cases "isl (mount_lookup h)")
    case True
    with sentinel_on_failure show ?thesis by (simp add: has_key_map_of)
  next
    case False
    with no_sentinel show ?thesis by (simp add: has_key_map_of)
  qed
  have part2: "has_key ''Drive'' (get_system_info rt h) \<longrightarrow>
        map_of (get_system_info rt h) ''Drive'' = Some (Text ''Unknown'')
        \<and> \<not> has_key ''Drive Model'' (get_system_info rt h)
        \<and> \<not> has_key ''Drive Type'' (get_system_info rt h)
        \<and> \<not> has_key ''Drive Capacity'' (get_system_info rt h)"
    using sentinel_on_failure part1 by (simp add: has_key_map_of)
  have mem_outside:
    "k \<notin> cpu_keys \<and> k \<notin> drive_keys \<and> k \<notin> docker_keys \<and> k \<noteq> ''CPU Cores''
     \<and> k \<noteq> ''CPU Threads'' \<and> k \<noteq> ''Memory Total'' \<and> k \<noteq> ''OS'' \<and> k \<noteq> ''Drive''
     \<and> k \<noteq> ''Filesystem''"
    if "k \<in> memory_keys" for k
    using that by (auto simp: cpu_keys_def memory_keys_def drive_keys_def docker_keys_def)
  have drive_other: "map_of (drive_info h info) k = map_of info k"
    if "k \<notin> drive_keys" "k \<noteq> ''Drive''" "k \<noteq> ''Filesystem''" for k info
    using that
    by (auto simp: drive_info_def drive_probes_other put_other split: sum.splits)
  have no_memory: "map_of (get_system_info rt h) k = None"
    if skipped: "in_docker h \<or> isl (dmidecode h)" and k: "k \<in> memory_keys" for k
  proof -
    from skipped have "info6 = put ''OS'' (Text (system_name h @ '' '' @ release h)) info4"
      by (simp add: info6_def memory_details_skipped)
    with mem_outside [OF k] have "map_of info6 k = None"
      by (simp add: put_other before4)
    with mem_outside [OF k] show ?thesis
      unfolding whole by (simp add: docker_info_other drive_other)
  qed
  have part3: "in_docker h \<or> isl (dmidecode h) \<longrightarrow>
        \<not> has_key ''Memory Type'' (get_system_info rt h)
        \<and> \<not> has_key ''Memory Speed'' (get_system_info rt h)
        \<and> \<not> has_key ''Memory Config'' (get_system_info rt h)"
    using no_memory by (simp add: has_key_map_of memory_keys_def)
  have model_outside: "''CPU Model'' \<notin> memory_keys" "''CPU Model'' \<notin> drive_keys"
    "''CPU Model'' \<notin> docker_keys"
    by (simp_all add: memory_keys_def drive_keys_def docker_keys_def)
  have part4: "isl (lscpu h) \<longrightarrow>
        map_of (get_system_info rt h) ''CPU Model'' = Some (processor_or_unknown h)"
  proof
    assume "isl (lscpu h)"
    then obtain e where "lscpu h = Inl e"
      by (auto simp: isl_def)
    then have "cpu_info rt h [] = [(''CPU Model'', processor_or_unknown h)]"
      by (simp add: cpu_info_def)
    then have "map_of info6 ''CPU Model'' = Some (processor_or_unknown h)"
      by (simp add: info6_def info4_def put_other memory_details_other model_outside)
    then show "map_of (get_system_info rt h) ''CPU Model'' = Some (processor_or_unknown h)"
      unfolding whole by (simp add: docker_info_other drive_other model_outside)
  qed
  have part5: "isl (docker_version h) \<longrightarrow>
        map_of (get_system_info rt h) ''Docker'' = Some (Text ''Not detected'')"
    unfolding whole by (auto simp: isl_def docker_info_def map_of_put)
  from part1 part2 part3 part4 part5 show ?thesis
    by blast
qed

theorem drive_sentinel_witness:
  "isl (mount_lookup bare_host) \<and> isl (dmidecode bare_host) \<and> isl (lscpu bare_host)
   \<and> isl (docker_version bare_host)
   \<and> has_key ''Drive'' (get_system_info sample_runtime bare_host)
   \<and> map_of (get_system_info sample_runtime bare_host) ''Drive'' = Some (Text ''Unknown'')
   \<and> \<not> has_key ''Drive Model'' (get_system_info sample_runtime bare_host)
   \<and> \<not> has_key ''Memory Type'' (get_system_info sample_runtime bare_host)
   \<and> map_of (get_system_info sample_runtime bare_host) ''CPU Model'' = Some (Text ''Unknown'')
   \<and> map_of (get_system_info sample_runtime bare_host) ''Docker'' = Some (Text ''Not detected'')"
proof -
  have hyps: "isl (mount_lookup bare_host)" "isl (dmidecode bare_host)" "isl (lscpu bare_host)"
    "isl (docker_version bare_host)"
    by (simp_all add: mount_lookup_def bare_host_def)
  have "processor_or_unknown bare_host = Text ''Unknown''"
    by (simp add: processor_or_unknown_def bare_host_def)
  with hyps drive_sentinel [of sample_runtime bare_host] show ?thesis
    by simp
qed

end
